theory Spec2Isabelle
  imports Main "HOL-Library.Multiset"
begin

section \<open>Regular expressions of the schema validators\<close>

text \<open>
  The \<open>match\<close> validators of both schemas carry a JavaScript regular expression.
  It uses no back-reference and no look-around, and it is anchored at both ends
  (\<open>^ ... $\<close>, no flags), so \<open>regExp.test(v)\<close> is membership of the whole string
  in a regular language. Strings are lists of 8-bit characters.
\<close>

datatype rexp =
    Null
  | Eps
  | Lit char
  | WordCh
  | Alt rexp rexp
  | Seq rexp rexp
  | Star rexp

text \<open>\<open>\w\<close> is \<open>[A-Za-z0-9_]\<close>.\<close>

definition is_word :: "char \<Rightarrow> bool" where
  "is_word c =
     (let n = (of_char c :: nat)
      in (48 \<le> n \<and> n \<le> 57) \<or> (65 \<le> n \<and> n \<le> 90) \<or> n = 95 \<or> (97 \<le> n \<and> n \<le> 122))"

text \<open>The postfix operators \<open>+\<close>, \<open>?\<close> and \<open>{2,3}\<close>, and the class \<open>[\.-]\<close>.\<close>

definition Plus :: "rexp \<Rightarrow> rexp" where
  "Plus r = Seq r (Star r)"

definition Opt :: "rexp \<Rightarrow> rexp" where
  "Opt r = Alt Eps r"

definition Rep23 :: "rexp \<Rightarrow> rexp" where
  "Rep23 r = Seq r (Seq r (Opt r))"

definition DotDash :: rexp where
  "DotDash = Alt (Lit (CHR ''.'')) (Lit (CHR ''-''))"

text \<open>
  \<open>/^\w+([\.-]?\w+)*@\w+([\.-]?\w+)*(\.\w{2,3})+$/\<close>, the pattern of the
  \<open>email\<close> path in \<open>contactSchema\<close> and in \<open>applicationSchema\<close>.
\<close>

definition email_re :: rexp where
  "email_re =
     Seq (Plus WordCh)
    (Seq (Star (Seq (Opt DotDash) (Plus WordCh)))
    (Seq (Lit (CHR ''@''))
    (Seq (Plus WordCh)
    (Seq (Star (Seq (Opt DotDash) (Plus WordCh)))
         (Plus (Seq (Lit (CHR ''.'')) (Rep23 WordCh)))))))"

subsection \<open>Matching\<close>

text \<open>
  The matcher follows the expression with the set of expressions that may still
  match the rest of the input (partial derivatives), one character at a time.
\<close>

fun nullable :: "rexp \<Rightarrow> bool" where
  "nullable Null = False"
| "nullable Eps = True"
| "nullable (Lit c) = False"
| "nullable WordCh = False"
| "nullable (Alt r s) = (nullable r \<or> nullable s)"
| "nullable (Seq r s) = (nullable r \<and> nullable s)"
| "nullable (Star r) = True"

fun pderiv :: "char \<Rightarrow> rexp \<Rightarrow> rexp list" where
  "pderiv a Null = []"
| "pderiv a Eps = []"
| "pderiv a (Lit c) = (if a = c then [Eps] else [])"
| "pderiv a WordCh = (if is_word a then [Eps] else [])"
| "pderiv a (Alt r s) = pderiv a r @ pderiv a s"
| "pderiv a (Seq r s) =
     map (\<lambda>r'. Seq r' s) (pderiv a r) @ (if nullable r then pderiv a s else [])"
| "pderiv a (Star r) = map (\<lambda>r'. Seq r' (Star r)) (pderiv a r)"

definition pderivs :: "char \<Rightarrow> rexp list \<Rightarrow> rexp list" where
  "pderivs a rs = remdups (concat (map (pderiv a) rs))"

fun run :: "rexp list \<Rightarrow> string \<Rightarrow> rexp list" where
  "run rs [] = rs"
| "run rs (a # s) = run (pderivs a rs) s"

text \<open>\<open>regExp.test(v)\<close> for an anchored expression.\<close>

definition test :: "rexp \<Rightarrow> string \<Rightarrow> bool" where
  "test r s = list_ex nullable (run [r] s)"

subsection \<open>The language of an expression\<close>

definition conc :: "string set \<Rightarrow> string set \<Rightarrow> string set" where
  "conc A B = {u @ v | u v. u \<in> A \<and> v \<in> B}"

inductive_set star :: "string set \<Rightarrow> string set" for A :: "string set" where
  star_empty: "[] \<in> star A"
| star_more: "u \<in> A \<Longrightarrow> v \<in> star A \<Longrightarrow> u @ v \<in> star A"

fun lang :: "rexp \<Rightarrow> string set" where
  "lang Null = {}"
| "lang Eps = {[]}"
| "lang (Lit c) = {[c]}"
| "lang WordCh = {[c] | c. is_word c}"
| "lang (Alt r s) = lang r \<union> lang s"
| "lang (Seq r s) = conc (lang r) (lang s)"
| "lang (Star r) = star (lang r)"


section \<open>Strings and numbers of the JavaScript runtime\<close>

text \<open>\<open>Array.prototype.join\<close> on a list of strings.\<close>

fun join :: "string \<Rightarrow> string list \<Rightarrow> string" where
  "join sep [] = []"
| "join sep [x] = x"
| "join sep (x # y # ys) = x @ sep @ join sep (y # ys)"

text \<open>
  A non-negative integer number converted to a string (as \<open>+\<close> with a string operand
  does): its decimal digits. \<open>Date.now()\<close> and \<open>Math.round(Math.random() * 1E9)\<close>
  are such numbers, far below the \<open>1e21\<close> where the exponent notation starts.
\<close>

definition digit :: "nat \<Rightarrow> char" where
  "digit d =
     (if d = 0 then CHR ''0'' else if d = 1 then CHR ''1'' else if d = 2 then CHR ''2''
      else if d = 3 then CHR ''3'' else if d = 4 then CHR ''4'' else if d = 5 then CHR ''5''
      else if d = 6 then CHR ''6'' else if d = 7 then CHR ''7'' else if d = 8 then CHR ''8''
      else CHR ''9'')"

function number_to_string :: "nat \<Rightarrow> string" where
  "number_to_string n =
     (if n < 10 then [digit n] else number_to_string (n div 10) @ [digit (n mod 10)])"
  by pat_completeness auto
termination
  by (relation "measure (\<lambda>n. n)") auto

declare number_to_string.simps [simp del]

subsection \<open>\<open>path.extname\<close>\<close>

text \<open>
  The POSIX \<open>path.extname\<close> of the runtime scans the path from its end, with
  \<open>-1\<close> for "not seen yet"; the record holds the variables of that loop.
\<close>

record ext_state =
  startDot :: int
  startPart :: int
  endp :: int
  matchedSlash :: bool
  preDotState :: int

fun extname_loop :: "string \<Rightarrow> nat \<Rightarrow> ext_state \<Rightarrow> ext_state" where
  "extname_loop path 0 st = st"
| "extname_loop path (Suc i) st =
     (let code = path ! i in
      if code = CHR ''/'' then
        (if \<not> matchedSlash st then st\<lparr>startPart := int i + 1\<rparr>
         else extname_loop path i st)
      else
        let st1 = (if endp st = -1 then st\<lparr>endp := int i + 1, matchedSlash := False\<rparr> else st);
            st2 = (if code = CHR ''.'' then
                     (if startDot st1 = -1 then st1\<lparr>startDot := int i\<rparr>
                      else if preDotState st1 \<noteq> 1 then st1\<lparr>preDotState := 1\<rparr>
                      else st1)
                   else if startDot st1 \<noteq> -1 then st1\<lparr>preDotState := -1\<rparr>
                   else st1)
        in extname_loop path i st2)"

definition extname :: "string \<Rightarrow> string" where
  "extname path =
     (let st = extname_loop path (length path)
                 \<lparr>startDot = -1, startPart = 0, endp = -1, matchedSlash = True, preDotState = 0\<rparr>
      in if startDot st = -1 \<or> endp st = -1 \<or> preDotState st = 0 \<or>
            (preDotState st = 1 \<and> startDot st = endp st - 1 \<and> startDot st = startPart st + 1)
         then []
         else take (nat (endp st - startDot st)) (drop (nat (startDot st)) path))"

section \<open>The models: schemas and their validation\<close>

text \<open>
  A schema path carries its validators in the order the schema type runs them:
  \<open>required: [true, msg]\<close> first, then \<open>match: [regExp, msg]\<close>.
\<close>

datatype validator = Required string | Match rexp string

text \<open>
  A field of a document is a string or absent (\<open>undefined\<close>). The required check of
  a string path fails on an absent and on an empty value; the match check passes on
  both and tests the expression on every other value.
\<close>

fun check :: "validator \<Rightarrow> string option \<Rightarrow> string option" where
  "check (Required msg) None = Some msg"
| "check (Required msg) (Some v) = (if v = [] then Some msg else None)"
| "check (Match re msg) None = None"
| "check (Match re msg) (Some v) = (if v = [] \<or> test re v then None else Some msg)"

text \<open>The validators of one path run in order; the first failure is the path's error.\<close>

fun doValidate :: "validator list \<Rightarrow> string option \<Rightarrow> string option" where
  "doValidate [] v = None"
| "doValidate (x # xs) v = (case check x v of Some msg \<Rightarrow> Some msg | None \<Rightarrow> doValidate xs v)"

type_synonym 'd schema = "(string \<times> ('d \<Rightarrow> string option) \<times> validator list) list"

text \<open>
  Validation of a document: one \<open>(path, message)\<close> entry per violated path, the
  content of \<open>error.errors\<close>. The entries are taken in the order of the schema;
  which messages are reported does not depend on that order.
\<close>

fun validate :: "'d schema \<Rightarrow> 'd \<Rightarrow> (string \<times> string) list" where
  "validate [] d = []"
| "validate ((path, get, vs) # sch) d =
     (case doValidate vs (get d) of
        None \<Rightarrow> validate sch d
      | Some msg \<Rightarrow> (path, msg) # validate sch d)"

record contact =
  name :: "string option"
  email :: "string option"
  message :: "string option"
  createdAt :: nat

definition contactSchema :: "contact schema" where
  "contactSchema =
     [(''name'', contact.name, [Required ''Name is required'']),
      (''email'', contact.email,
         [Required ''Email is required'',
          Match email_re ''Please enter a valid email address'']),
      (''message'', contact.message, [Required ''Message is required''])]"

record application =
  name :: "string option"
  email :: "string option"
  qualification :: "string option"
  specialization :: "string option"
  resumeUrl :: "string option"
  createdAt :: nat

definition applicationSchema :: "application schema" where
  "applicationSchema =
     [(''name'', application.name, [Required ''Name is required'']),
      (''email'', application.email,
         [Required ''Email is required'',
          Match email_re ''Please enter a valid email address'']),
      (''qualification'', application.qualification, [Required ''Qualification is required'']),
      (''specialization'', application.specialization, [Required ''Specialization is required'']),
      (''resumeUrl'', application.resumeUrl, [Required ''Resume URL is required''])]"


section \<open>Errors, the environment and the state\<close>

text \<open>
  An error object with its \<open>message\<close>: a validation error of the store's model layer
  also has \<open>errors\<close>, the per-path entries; an error of the upload middleware has a
  \<open>code\<close>; every other error has a message only.
\<close>

datatype error =
    ValidationError string "(string \<times> string) list"
  | MulterError string string
  | Error string

fun error_name :: "error \<Rightarrow> string" where
  "error_name (ValidationError msg errs) = ''ValidationError''"
| "error_name (MulterError code msg) = ''MulterError''"
| "error_name (Error msg) = ''Error''"

fun error_message :: "error \<Rightarrow> string" where
  "error_message (ValidationError msg errs) = msg"
| "error_message (MulterError code msg) = msg"
| "error_message (Error msg) = msg"

fun error_errors :: "error \<Rightarrow> (string \<times> string) list" where
  "error_errors (ValidationError msg errs) = errs"
| "error_errors (MulterError code msg) = []"
| "error_errors (Error msg) = []"

text \<open>
  What a request reads from outside the program: the clock at the upload and at the
  construction of the document, the rounded random draw, and whether the store or the
  removal of a file fails (with the message of the failure).
\<close>

record env =
  upload_now :: nat
  math_random :: nat
  document_now :: nat
  store_failure :: "string option"
  unlink_failure :: "string option"

text \<open>
  The two collections, in insertion order, and the files of the upload directory
  (path to content).
\<close>

record state =
  contacts :: "contact list"
  applications :: "application list"
  uploads :: "string \<rightharpoonup> string"

record response =
  status :: nat
  success :: bool
  message :: "string option"
  data :: "application list option"

definition json :: "nat \<Rightarrow> bool \<Rightarrow> string \<Rightarrow> response" where
  "json code ok msg = \<lparr>status = code, success = ok, message = Some msg, data = None\<rparr>"

subsection \<open>Saving a document\<close>

definition validation_message :: "string \<Rightarrow> (string \<times> string) list \<Rightarrow> string" where
  "validation_message model errs =
     model @ '' validation failed: '' @ join '', '' (map (\<lambda>(path, msg). path @ '': '' @ msg) errs)"

text \<open>
  \<open>document.save()\<close>: validation runs first and rejects with a validation error;
  a valid document is written, unless the store fails.
\<close>

definition save :: "string \<Rightarrow> 'd schema \<Rightarrow> env \<Rightarrow> 'd \<Rightarrow> 'd list \<Rightarrow> error + 'd list" where
  "save model sch e d collection =
     (case validate sch d of
        [] \<Rightarrow> (case store_failure e of
                 None \<Rightarrow> Inr (collection @ [d])
               | Some msg \<Rightarrow> Inl (Error msg))
      | errs \<Rightarrow> Inl (ValidationError (validation_message model errs) errs))"

section \<open>File intake\<close>

text \<open>An incoming file part of a multipart request, and the stored file \<open>req.file\<close>.\<close>

record upload =
  fieldname :: string
  originalname :: string
  mimetype :: string
  content :: string

record multer_file =
  filename :: string
  path :: string
  stored_originalname :: string
  stored_mimetype :: string

definition storage_destination :: string where
  "storage_destination = ''uploads/''"

definition storage_filename :: "env \<Rightarrow> upload \<Rightarrow> string" where
  "storage_filename e f =
     (let uniqueSuffix = number_to_string (upload_now e) @ ''-'' @ number_to_string (math_random e)
      in uniqueSuffix @ extname (originalname f))"

definition fileFilter :: "upload \<Rightarrow> error + bool" where
  "fileFilter f =
     (if mimetype f \<noteq> ''application/pdf'' then Inl (Error ''Only PDF files are allowed!'')
      else Inr True)"

definition limits_fileSize :: nat where
  "limits_fileSize = 5 * 1024 * 1024"

text \<open>
  \<open>upload.single(field)\<close>: a request without a file part goes on with no
  \<open>req.file\<close>. A file part of another field is refused, then the filter decides,
  then the file is written under the generated name; a file over the size limit is
  removed again and the request is refused.
\<close>

definition upload_single ::
    "string \<Rightarrow> env \<Rightarrow> upload option \<Rightarrow> state \<Rightarrow> (error + multer_file option) \<times> state" where
  "upload_single field e part st =
     (case part of
        None \<Rightarrow> (Inr None, st)
      | Some f \<Rightarrow>
          if fieldname f \<noteq> field then
            (Inl (MulterError ''LIMIT_UNEXPECTED_FILE'' ''Unexpected field''), st)
          else
            (case fileFilter f of
               Inl err \<Rightarrow> (Inl err, st)
             | Inr False \<Rightarrow> (Inr None, st)
             | Inr True \<Rightarrow>
                 let fname = storage_filename e f;
                     p = storage_destination @ fname
                 in if length (content f) > limits_fileSize then
                      (Inl (MulterError ''LIMIT_FILE_SIZE'' ''File too large''),
                       st\<lparr>uploads := (uploads st)(p := None)\<rparr>)
                    else
                      (Inr (Some \<lparr>filename = fname, path = p,
                                  stored_originalname = originalname f,
                                  stored_mimetype = mimetype f\<rparr>),
                       st\<lparr>uploads := (uploads st)(p \<mapsto> content f)\<rparr>)))"

text \<open>\<open>fs.unlink\<close>: the file is gone unless the removal fails.\<close>

definition unlink :: "env \<Rightarrow> string \<Rightarrow> state \<Rightarrow> state" where
  "unlink e p st =
     (case unlink_failure e of
        None \<Rightarrow> st\<lparr>uploads := (uploads st)(p := None)\<rparr>
      | Some err \<Rightarrow> st)"

section \<open>The routes\<close>

text \<open>The parsed body of a request: its fields, each a string or absent.\<close>

type_synonym body = "string \<rightharpoonup> string"

text \<open>\<open>POST /api/contact\<close>\<close>

definition post_contact :: "env \<Rightarrow> body \<Rightarrow> state \<Rightarrow> response \<times> state" where
  "post_contact e reqbody st =
     (let newContact = \<lparr>contact.name = reqbody ''name'', email = reqbody ''email'',
                        message = reqbody ''message'', createdAt = document_now e\<rparr>
      in case save ''Contact'' contactSchema e newContact (contacts st) of
           Inr saved \<Rightarrow>
             (json 201 True ''Thank you! We will connect shortly.'', st\<lparr>contacts := saved\<rparr>)
         | Inl err \<Rightarrow>
             if error_name err = ''ValidationError'' then
               (let messages = map snd (error_errors err)
                in (json 400 False (join ''. '' messages), st))
             else (json 500 False ''Error submitting form. Please try again.'', st))"

text \<open>\<open>POST /api/apply\<close>: the route handler, behind \<open>upload.single('resume')\<close>.\<close>

record apply_request =
  protocol :: string
  host :: string
  body :: body
  part :: "upload option"

definition apply_handler ::
    "env \<Rightarrow> apply_request \<Rightarrow> multer_file option \<Rightarrow> state \<Rightarrow> response \<times> state" where
  "apply_handler e req reqfile st =
     (case reqfile of
        None \<Rightarrow> (json 400 False ''Please upload a resume'', st)
      | Some f \<Rightarrow>
          let resume = protocol req @ ''://'' @ host req @ ''/uploads/'' @ filename f;
              newApplication =
                \<lparr>application.name = body req ''name'', email = body req ''email'',
                 qualification = body req ''qualification'',
                 specialization = body req ''specialization'',
                 resumeUrl = Some resume, createdAt = document_now e\<rparr>
          in case save ''Application'' applicationSchema e newApplication (applications st) of
               Inr saved \<Rightarrow>
                 (json 201 True ''Thank you for your application! We will review it shortly.'',
                  st\<lparr>applications := saved\<rparr>)
             | Inl err \<Rightarrow>
                 let st' = unlink e (path f) st
                 in if error_name err = ''ValidationError'' then
                      (let messages = map snd (error_errors err)
                       in (json 400 False (join ''. '' messages), st'))
                    else
                      (json 500 False ''Error submitting application. Please try again.'', st'))"

text \<open>\<open>GET /api/applications\<close>: \<open>find().sort({ createdAt: -1 })\<close>.\<close>

definition find_sorted :: "application list \<Rightarrow> application list" where
  "find_sorted xs = sort_key (\<lambda>a. - int (application.createdAt a)) xs"

definition get_applications :: "env \<Rightarrow> state \<Rightarrow> response \<times> state" where
  "get_applications e st =
     (case store_failure e of
        None \<Rightarrow>
          (\<lparr>status = 200, success = True, message = None,
            data = Some (find_sorted (applications st))\<rparr>, st)
      | Some err \<Rightarrow> (json 500 False ''Error fetching applications'', st))"

text \<open>The error handling middleware, where the errors of the upload arrive.\<close>

fun error_middleware :: "error \<Rightarrow> response" where
  "error_middleware (MulterError code msg) =
     (if code = ''LIMIT_FILE_SIZE'' then json 400 False ''File is too large. Maximum size is 5MB''
      else json 400 False ''Error uploading file'')"
| "error_middleware err =
     json 500 False (if error_message err = [] then ''Something broke!'' else error_message err)"

definition post_apply :: "env \<Rightarrow> apply_request \<Rightarrow> state \<Rightarrow> response \<times> state" where
  "post_apply e req st =
     (case upload_single ''resume'' e (part req) st of
        (Inl err, st') \<Rightarrow> (error_middleware err, st')
      | (Inr reqfile, st') \<Rightarrow> apply_handler e req reqfile st')"

text \<open>The server: one request after the other, each with its own environment.\<close>

datatype request = PostContact body | PostApply apply_request | GetApplications

fun handle :: "env \<Rightarrow> request \<Rightarrow> state \<Rightarrow> response \<times> state" where
  "handle e (PostContact reqbody) st = post_contact e reqbody st"
| "handle e (PostApply req) st = post_apply e req st"
| "handle e GetApplications st = get_applications e st"

fun serve :: "(env \<times> request) list \<Rightarrow> state \<Rightarrow> state" where
  "serve [] st = st"
| "serve ((e, r) # rs) st = serve rs (snd (handle e r st))"


section \<open>Notions used by the properties\<close>

text \<open>The union of the languages of a list of expressions.\<close>

definition langs :: "rexp list \<Rightarrow> string set" where
  "langs rs = (\<Union>r \<in> set rs. lang r)"

text \<open>The final dot-separated label of a string: what follows its last dot.\<close>

definition last_label :: "string \<Rightarrow> string" where
  "last_label s = rev (takeWhile (\<lambda>c. c \<noteq> CHR ''.'') (rev s))"

text \<open>\<open>contains s t\<close>: the string \<open>t\<close> occurs in \<open>s\<close>.\<close>

definition contains :: "string \<Rightarrow> string \<Rightarrow> bool" where
  "contains s t = (\<exists>pre post. s = pre @ t @ post)"

text \<open>A string ends in a label: a dot and two or three word characters.\<close>

definition label_end :: "string \<Rightarrow> bool" where
  "label_end s = (\<exists>p l. s = p @ CHR ''.'' # l \<and> (length l = 2 \<or> length l = 3) \<and> list_all is_word l)"

text \<open>
  A field is missing when it is absent or present but empty. The violation messages
  of a document, path by path, as the schemas word them.
\<close>

definition missing :: "string option \<Rightarrow> bool" where
  "missing v = (v = None \<or> v = Some [])"

definition required_violation :: "string \<Rightarrow> string option \<Rightarrow> string list" where
  "required_violation msg v = (if missing v then [msg] else [])"

definition email_violation :: "string option \<Rightarrow> string list" where
  "email_violation v =
     (case v of
        None \<Rightarrow> [''Email is required'']
      | Some s \<Rightarrow>
          if s = [] then [''Email is required'']
          else if test email_re s then []
          else [''Please enter a valid email address''])"

definition contact_violations :: "body \<Rightarrow> string list" where
  "contact_violations b =
     required_violation ''Name is required'' (b ''name'') @
     email_violation (b ''email'') @
     required_violation ''Message is required'' (b ''message'')"

definition application_violations :: "body \<Rightarrow> string list" where
  "application_violations b =
     required_violation ''Name is required'' (b ''name'') @
     email_violation (b ''email'') @
     required_violation ''Qualification is required'' (b ''qualification'') @
     required_violation ''Specialization is required'' (b ''specialization'')"

text \<open>The document the application route constructs for a stored file.\<close>

definition new_application :: "env \<Rightarrow> apply_request \<Rightarrow> multer_file \<Rightarrow> application" where
  "new_application e req f =
     \<lparr>application.name = body req ''name'', email = body req ''email'',
      qualification = body req ''qualification'',
      specialization = body req ''specialization'',
      resumeUrl = Some (protocol req @ ''://'' @ host req @ ''/uploads/'' @ filename f),
      createdAt = document_now e\<rparr>"

text \<open>The document the contact route constructs.\<close>

definition new_contact :: "env \<Rightarrow> body \<Rightarrow> contact" where
  "new_contact e b =
     \<lparr>contact.name = b ''name'', email = b ''email'', message = b ''message'',
      createdAt = document_now e\<rparr>"

text \<open>
  Decimal digits, an extension (empty, or a dot and more), and the invariant of the
  scan of \<open>path.extname\<close>: a dot it has recorded is a dot of the path.
\<close>

definition is_digit :: "char \<Rightarrow> bool" where
  "is_digit c = (c \<in> set ''0123456789'')"

definition dot_ext :: "string \<Rightarrow> bool" where
  "dot_ext x = (x = [] \<or> (\<exists>t. x = CHR ''.'' # t))"

definition dot_seen :: "string \<Rightarrow> ext_state \<Rightarrow> bool" where
  "dot_seen p st =
     (startDot st = -1 \<or>
      (0 \<le> startDot st \<and> nat (startDot st) < length p \<and> p ! nat (startDot st) = CHR ''.''))"

section \<open>Example inputs\<close>

definition empty_state :: state where
  "empty_state = \<lparr>contacts = [], applications = [], uploads = Map.empty\<rparr>"

definition working_env :: env where
  "working_env =
     \<lparr>upload_now = 1730000000123, math_random = 123456789, document_now = 1730000000456,
      store_failure = None, unlink_failure = None\<rparr>"

definition failing_store_env :: env where
  "failing_store_env = working_env\<lparr>store_failure := Some ''connection refused 10.0.0.7:27017''\<rparr>"

definition jane_body :: body where
  "jane_body =
     [''name'' \<mapsto> ''Jane'', ''email'' \<mapsto> ''jane@x.com'',
      ''qualification'' \<mapsto> ''BSc'', ''specialization'' \<mapsto> ''Bio'', ''message'' \<mapsto> ''hi'']"

definition no_file_request :: apply_request where
  "no_file_request = \<lparr>protocol = ''http'', host = ''localhost:5000'', body = jane_body, part = None\<rparr>"

definition unnamed_body :: body where
  "unnamed_body = [''name'' \<mapsto> [], ''email'' \<mapsto> ''a@b.com'', ''message'' \<mapsto> ''hi'']"

definition info_body :: body where
  "info_body = jane_body(''email'' \<mapsto> ''a@b.info'')"

definition jane_pdf :: upload where
  "jane_pdf = \<lparr>fieldname = ''resume'', originalname = ''cv.pdf'', mimetype = ''application/pdf'',
                content = ''%PDF-1.4 Jane''\<rparr>"

definition jane_request :: apply_request where
  "jane_request = \<lparr>protocol = ''http'', host = ''localhost:5000'', body = jane_body, part = Some jane_pdf\<rparr>"

definition jane_file :: multer_file where
  "jane_file = \<lparr>filename = ''1730000000123-123456789.pdf'', path = ''uploads/1730000000123-123456789.pdf'',
                 stored_originalname = ''cv.pdf'', stored_mimetype = ''application/pdf''\<rparr>"

definition jane_contact :: contact where
  "jane_contact = \<lparr>contact.name = Some ''Jane'', email = Some ''jane@x.com'', message = Some ''hi'',
                    createdAt = 1730000000456\<rparr>"

definition txt_upload :: upload where
  "txt_upload = \<lparr>fieldname = ''resume'', originalname = ''cv.txt'', mimetype = ''application/pdf'',
                  content = ''%PDF-1.4 Jane''\<rparr>"

definition bob_pdf :: upload where
  "bob_pdf = \<lparr>fieldname = ''resume'', originalname = ''bob.pdf'', mimetype = ''application/pdf'',
               content = ''%PDF-1.4 Bob''\<rparr>"

definition png_upload :: upload where
  "png_upload = \<lparr>fieldname = ''resume'', originalname = ''photo.png'', mimetype = ''image/png'',
                  content = ''PNG''\<rparr>"

definition png_request :: apply_request where
  "png_request = \<lparr>protocol = ''http'', host = ''localhost:5000'', body = jane_body, part = Some png_upload\<rparr>"

definition thousand_uploads :: "(env \<times> upload) list" where
  "thousand_uploads =
     (working_env, jane_pdf) # (working_env, bob_pdf) #
     map (\<lambda>i. (working_env\<lparr>upload_now := upload_now working_env + i\<rparr>, jane_pdf)) [2..<1000]"

definition two_uploads :: "(env \<times> upload) list" where
  "two_uploads = [(working_env, jane_pdf), (working_env\<lparr>math_random := 987654321\<rparr>, bob_pdf)]"

definition unlink_failing_env :: env where
  "unlink_failing_env = failing_store_env\<lparr>unlink_failure := Some ''EPERM: operation not permitted, unlink''\<rparr>"

definition jane_application :: application where
  "jane_application =
     \<lparr>application.name = Some ''Jane'', email = Some ''jane@x.com'', qualification = Some ''BSc'',
      specialization = Some ''Bio'',
      resumeUrl = Some ''http://localhost:5000/uploads/1730000000123-123456789.pdf'',
      createdAt = 1730000000456\<rparr>"

definition old_application :: application where
  "old_application =
     \<lparr>application.name = Some ''Ann'', email = Some ''ann@y.org'', qualification = Some ''MSc'',
      specialization = Some ''Chem'',
      resumeUrl = Some ''http://localhost:5000/uploads/1720000000000-5.pdf'',
      createdAt = 1720000000000\<rparr>"

definition old_state :: state where
  "old_state = empty_state\<lparr>applications := [old_application]\<rparr>"

definition jane_stored :: state where
  "jane_stored =
     empty_state\<lparr>uploads := [''uploads/1730000000123-123456789.pdf'' \<mapsto> ''%PDF-1.4 Jane'']\<rparr>"

definition info_request :: apply_request where
  "info_request = \<lparr>protocol = ''http'', host = ''localhost:5000'', body = info_body, part = Some jane_pdf\<rparr>"

definition info_no_file_request :: apply_request where
  "info_no_file_request = \<lparr>protocol = ''http'', host = ''localhost:5000'', body = info_body, part = None\<rparr>"

definition info_png_request :: apply_request where
  "info_png_request = \<lparr>protocol = ''http'', host = ''localhost:5000'', body = info_body, part = Some png_upload\<rparr>"

section \<open>The matcher decides the language\<close>

lemma nullable_lang: "nullable r \<longleftrightarrow> [] \<in> lang r"
  by (induction r) (auto simp: conc_def intro: star.intros)

lemma cons_in_conc:
  "a # s \<in> conc A B \<longleftrightarrow>
     (\<exists>u v. s = u @ v \<and> a # u \<in> A \<and> v \<in> B) \<or> ([] \<in> A \<and> a # s \<in> B)"
proof
  assume "a # s \<in> conc A B"
  then obtain u v where uv: "a # s = u @ v" "u \<in> A" "v \<in> B"
    by (auto simp: conc_def)
  show "(\<exists>u v. s = u @ v \<and> a # u \<in> A \<and> v \<in> B) \<or> ([] \<in> A \<and> a # s \<in> B)"
  proof (cases u)
    case Nil
    with uv show ?thesis by simp
  next
    case (Cons b u')
    with uv show ?thesis by auto
  qed
next
  assume "(\<exists>u v. s = u @ v \<and> a # u \<in> A \<and> v \<in> B) \<or> ([] \<in> A \<and> a # s \<in> B)"
  then show "a # s \<in> conc A B"
  proof
    assume "\<exists>u v. s = u @ v \<and> a # u \<in> A \<and> v \<in> B"
    then obtain u v where "s = u @ v" "a # u \<in> A" "v \<in> B" by blast
    then have "(a # u) @ v \<in> conc A B" unfolding conc_def by blast
    with \<open>s = u @ v\<close> show ?thesis by simp
  next
    assume "[] \<in> A \<and> a # s \<in> B"
    then have "[] @ (a # s) \<in> conc A B" unfolding conc_def by blast
    then show ?thesis by simp
  qed
qed

lemma star_cons_split:
  assumes "w \<in> star A" "w = a # s"
  shows "\<exists>u v. s = u @ v \<and> a # u \<in> A \<and> v \<in> star A"
  using assms
proof (induction arbitrary: s rule: star.induct)
  case star_empty
  then show ?case by simp
next
  case (star_more u v)
  show ?case
  proof (cases u)
    case Nil
    with star_more show ?thesis by simp
  next
    case (Cons b u')
    with star_more.prems have "b = a" "s = u' @ v" by simp_all
    with Cons star_more.hyps show ?thesis by blast
  qed
qed

lemma cons_in_star:
  "a # s \<in> star A \<longleftrightarrow> (\<exists>u v. s = u @ v \<and> a # u \<in> A \<and> v \<in> star A)"
proof
  assume "a # s \<in> star A"
  then show "\<exists>u v. s = u @ v \<and> a # u \<in> A \<and> v \<in> star A"
    by (rule star_cons_split) simp
next
  assume "\<exists>u v. s = u @ v \<and> a # u \<in> A \<and> v \<in> star A"
  then obtain u v where "s = u @ v" "a # u \<in> A" "v \<in> star A" by blast
  then have "(a # u) @ v \<in> star A" by (blast intro: star_more)
  with \<open>s = u @ v\<close> show "a # s \<in> star A" by simp
qed

lemma langs_simps [simp]:
  "langs [] = {}" "langs (r # rs) = lang r \<union> langs rs" "langs (rs @ rs') = langs rs \<union> langs rs'"
  by (auto simp: langs_def)

lemma langs_map_Seq: "langs (map (\<lambda>r'. Seq r' t) rs) = conc (langs rs) (lang t)"
  by (auto simp: langs_def conc_def)

lemma quotient_conc:
  "{s. a # s \<in> conc A B} =
     conc {u. a # u \<in> A} B \<union> (if [] \<in> A then {s. a # s \<in> B} else {})"
proof -
  have "conc {u. a # u \<in> A} B = {s. \<exists>u v. s = u @ v \<and> a # u \<in> A \<and> v \<in> B}"
    unfolding conc_def by blast
  then show ?thesis
    by (auto simp: cons_in_conc)
qed

lemma quotient_star: "{s. a # s \<in> star A} = conc {u. a # u \<in> A} (star A)"
proof -
  have "conc {u. a # u \<in> A} (star A) = {s. \<exists>u v. s = u @ v \<and> a # u \<in> A \<and> v \<in> star A}"
    unfolding conc_def by blast
  then show ?thesis
    by (simp add: cons_in_star)
qed

lemma pderiv_lang: "langs (pderiv a r) = {s. a # s \<in> lang r}"
proof (induction r)
  case (Seq r1 r2)
  then show ?case
    by (simp add: langs_map_Seq quotient_conc nullable_lang)
next
  case (Star r)
  then show ?case
    by (simp add: langs_map_Seq quotient_star)
qed auto

lemma pderivs_lang: "langs (pderivs a rs) = {s. a # s \<in> langs rs}"
proof -
  have "langs (pderivs a rs) = (\<Union>r \<in> set rs. langs (pderiv a r))"
    by (auto simp: pderivs_def langs_def)
  also have "\<dots> = {s. a # s \<in> langs rs}"
    by (auto simp: pderiv_lang) (auto simp: langs_def)
  finally show ?thesis .
qed

lemma run_lang: "list_ex nullable (run rs s) \<longleftrightarrow> s \<in> langs rs"
proof (induction s arbitrary: rs)
  case Nil
  show ?case by (auto simp: list_ex_iff langs_def nullable_lang)
next
  case (Cons a s)
  then show ?case by (simp add: pderivs_lang)
qed

lemma test_lang: "test r s \<longleftrightarrow> s \<in> lang r"
  by (simp add: test_def run_lang)


section \<open>The top-level domain the pattern accepts\<close>

lemma label_end_prefix: "label_end s \<Longrightarrow> label_end (u @ s)"
  unfolding label_end_def by (metis append_assoc)

lemma conc_label_end:
  assumes "w \<in> conc A B" and "\<And>b. b \<in> B \<Longrightarrow> label_end b"
  shows "label_end w"
  using assms by (auto simp: conc_def intro: label_end_prefix)

lemma star_last:
  assumes "w \<in> star A"
  shows "w = [] \<or> (\<exists>u v. w = u @ v \<and> v \<in> A)"
  using assms
proof (induction rule: star.induct)
  case star_empty
  show ?case by simp
next
  case (star_more u v)
  from star_more.IH show ?case
  proof
    assume "v = []"
    then have "u @ v = [] @ u" by simp
    with star_more.hyps(1) show ?thesis by blast
  next
    assume "\<exists>u' v'. v = u' @ v' \<and> v' \<in> A"
    then obtain u' v' where "v = u' @ v'" "v' \<in> A" by blast
    then have "u @ v = (u @ u') @ v'" by simp
    with \<open>v' \<in> A\<close> show ?thesis by blast
  qed
qed

lemma Plus_last:
  assumes "w \<in> lang (Plus r)"
  shows "\<exists>u v. w = u @ v \<and> v \<in> lang r"
proof -
  from assms obtain x y where w: "w = x @ y" "x \<in> lang r" "y \<in> star (lang r)"
    by (auto simp: Plus_def conc_def)
  from star_last [OF w(3)] show ?thesis
  proof
    assume "y = []"
    with w have "w = [] @ x" by simp
    with w(2) show ?thesis by blast
  next
    assume "\<exists>u v. y = u @ v \<and> v \<in> lang r"
    then obtain u v where "y = u @ v" "v \<in> lang r" by blast
    with w have "w = (x @ u) @ v" by simp
    with \<open>v \<in> lang r\<close> show ?thesis by blast
  qed
qed

lemma lang_dot_label:
  assumes "v \<in> lang (Seq (Lit (CHR ''.'')) (Rep23 WordCh))"
  shows "\<exists>l. v = CHR ''.'' # l \<and> (length l = 2 \<or> length l = 3) \<and> list_all is_word l"
  using assms by (auto simp: Rep23_def Opt_def conc_def)

lemma email_re_label_end:
  assumes "s \<in> lang email_re"
  shows "label_end s"
proof -
  have last: "label_end b" if "b \<in> lang (Plus (Seq (Lit (CHR ''.'')) (Rep23 WordCh)))" for b
  proof -
    from Plus_last [OF that] obtain u v
      where b: "b = u @ v" and v: "v \<in> lang (Seq (Lit (CHR ''.'')) (Rep23 WordCh))" by blast
    from lang_dot_label [OF v] b show ?thesis
      unfolding label_end_def by blast
  qed
  from assms show ?thesis
    unfolding email_re_def lang.simps(6)
    by (blast intro: conc_label_end last)
qed

lemma is_word_not_dot: "is_word c \<Longrightarrow> c \<noteq> CHR ''.''"
  by (auto simp: is_word_def)

lemma last_label_append:
  assumes "list_all is_word l"
  shows "last_label (p @ CHR ''.'' # l) = l"
proof -
  have "takeWhile (\<lambda>c. c \<noteq> CHR ''.'') (rev l @ CHR ''.'' # rev p) = rev l"
    using assms by (intro takeWhile_tail[THEN trans] takeWhile_eq_all_conv[THEN iffD2])
      (auto simp: list_all_iff dest: is_word_not_dot)
  then show ?thesis by (simp add: last_label_def)
qed

lemma test_email_last_label:
  assumes "test email_re v"
  shows "v = take (length v - length (last_label v) - 1) v @ CHR ''.'' # last_label v"
    and "length (last_label v) = 2 \<or> length (last_label v) = 3"
    and "list_all is_word (last_label v)"
proof -
  from assms have "label_end v" by (simp add: test_lang email_re_label_end)
  then obtain p l where v: "v = p @ CHR ''.'' # l" and l: "length l = 2 \<or> length l = 3" "list_all is_word l"
    unfolding label_end_def by blast
  then have ll: "last_label v = l" by (simp add: last_label_append)
  show "length (last_label v) = 2 \<or> length (last_label v) = 3" using ll l by simp
  show "list_all is_word (last_label v)" using ll l by simp
  show "v = take (length v - length (last_label v) - 1) v @ CHR ''.'' # last_label v"
    unfolding ll using v by simp
qed

section \<open>Validation, case by case\<close>

lemma doValidate_required:
  "doValidate [Required msg] v = (case required_violation msg v of [] \<Rightarrow> None | m # _ \<Rightarrow> Some m)"
  by (cases v) (auto simp: required_violation_def missing_def)

lemma doValidate_email:
  "doValidate [Required ''Email is required'', Match email_re ''Please enter a valid email address''] v =
     (case email_violation v of [] \<Rightarrow> None | m # _ \<Rightarrow> Some m)"
  by (cases v) (auto simp: email_violation_def)

lemma required_violation_cases:
  "required_violation msg v = [] \<or> required_violation msg v = [msg]"
  by (simp add: required_violation_def)

lemma email_violation_cases:
  "email_violation v = [] \<or> email_violation v = [''Email is required''] \<or>
   email_violation v = [''Please enter a valid email address'']"
  by (auto simp: email_violation_def split: option.splits)

lemma validate_contactSchema:
  "map snd (validate contactSchema c) =
     required_violation ''Name is required'' (contact.name c) @
     email_violation (contact.email c) @
     required_violation ''Message is required'' (contact.message c)"
  using required_violation_cases [of "''Name is required''" "contact.name c"]
        email_violation_cases [of "contact.email c"]
        required_violation_cases [of "''Message is required''" "contact.message c"]
  unfolding contactSchema_def validate.simps doValidate_required doValidate_email
  by auto

lemma validate_applicationSchema:
  "map snd (validate applicationSchema a) =
     required_violation ''Name is required'' (application.name a) @
     email_violation (application.email a) @
     required_violation ''Qualification is required'' (application.qualification a) @
     required_violation ''Specialization is required'' (application.specialization a) @
     required_violation ''Resume URL is required'' (application.resumeUrl a)"
  using required_violation_cases [of "''Name is required''" "application.name a"]
        email_violation_cases [of "application.email a"]
        required_violation_cases [of "''Qualification is required''" "application.qualification a"]
        required_violation_cases [of "''Specialization is required''" "application.specialization a"]
        required_violation_cases [of "''Resume URL is required''" "application.resumeUrl a"]
  unfolding applicationSchema_def validate.simps doValidate_required doValidate_email
  by auto

lemma save_cases:
  "save model sch e d coll =
     (if validate sch d \<noteq> [] then
        Inl (ValidationError (validation_message model (validate sch d)) (validate sch d))
      else case store_failure e of None \<Rightarrow> Inr (coll @ [d]) | Some msg \<Rightarrow> Inl (Error msg))"
  by (simp add: save_def split: list.splits)

lemma join_contains: "m \<in> set ms \<Longrightarrow> contains (join sep ms) m"
proof (induction sep ms rule: join.induct)
  case (1 sep)
  then show ?case by simp
next
  case (2 sep x)
  then have "join sep [x] = [] @ m @ []" by simp
  then show ?case unfolding contains_def by blast
next
  case (3 sep x y ys)
  show ?case
  proof (cases "m = x")
    case True
    then have "join sep (x # y # ys) = [] @ m @ (sep @ join sep (y # ys))" by simp
    then show ?thesis unfolding contains_def by blast
  next
    case False
    with 3 have "contains (join sep (y # ys)) m" by simp
    then obtain pre post where "join sep (y # ys) = pre @ m @ post"
      unfolding contains_def by blast
    then have "join sep (x # y # ys) = (x @ sep @ pre) @ m @ post" by simp
    then show ?thesis unfolding contains_def by blast
  qed
qed

lemma post_contact_cases:
  "post_contact e b st =
     (if contact_violations b \<noteq> [] then (json 400 False (join ''. '' (contact_violations b)), st)
      else case store_failure e of
        None \<Rightarrow> (json 201 True ''Thank you! We will connect shortly.'',
                 st\<lparr>contacts := contacts st @
                   [\<lparr>contact.name = b ''name'', email = b ''email'', message = b ''message'',
                     createdAt = document_now e\<rparr>]\<rparr>)
      | Some msg \<Rightarrow> (json 500 False ''Error submitting form. Please try again.'', st))"
proof -
  let ?c = "\<lparr>contact.name = b ''name'', email = b ''email'', message = b ''message'',
              createdAt = document_now e\<rparr>"
  have v: "map snd (validate contactSchema ?c) = contact_violations b"
    by (simp add: validate_contactSchema contact_violations_def)
  then have nil: "validate contactSchema ?c = [] \<longleftrightarrow> contact_violations b = []"
    by (metis map_is_Nil_conv)
  show ?thesis
    unfolding post_contact_def Let_def save_cases
    using v nil by (auto split: option.splits)
qed

lemma apply_handler_cases:
  "apply_handler e req (Some f) st =
     (if application_violations (body req) \<noteq> [] then
        (json 400 False (join ''. '' (application_violations (body req))), unlink e (path f) st)
      else case store_failure e of
        None \<Rightarrow> (json 201 True ''Thank you for your application! We will review it shortly.'',
                 st\<lparr>applications := applications st @ [new_application e req f]\<rparr>)
      | Some msg \<Rightarrow> (json 500 False ''Error submitting application. Please try again.'',
                     unlink e (path f) st))"
proof -
  let ?a = "new_application e req f"
  have v: "map snd (validate applicationSchema ?a) = application_violations (body req)"
    by (simp add: validate_applicationSchema application_violations_def new_application_def
        required_violation_def missing_def)
  then have nil: "validate applicationSchema ?a = [] \<longleftrightarrow> application_violations (body req) = []"
    by (metis map_is_Nil_conv)
  show ?thesis
    unfolding apply_handler_def Let_def save_cases new_application_def [symmetric]
    using v nil by (auto split: option.splits)
qed

lemma long_label_violation:
  assumes "3 < length (last_label v)"
  shows "email_violation (Some v) = [''Please enter a valid email address'']"
proof -
  from assms have "v \<noteq> []" by (auto simp: last_label_def)
  moreover from assms test_email_last_label(2) [of v] have "\<not> test email_re v" by auto
  ultimately show ?thesis by (simp add: email_violation_def)
qed

lemma no_email_violation:
  "email_violation v = [] \<Longrightarrow> \<exists>s. v = Some s \<and> test email_re s"
  by (auto simp: email_violation_def split: option.splits if_splits)

section \<open>The routes, case by case, and the example inputs evaluated\<close>

lemmas email_eval = test_def email_re_def Plus_def Opt_def Rep23_def DotDash_def pderivs_def is_word_def

lemma test_a_b_com: "test email_re ''a@b.com''"
  by (simp add: email_eval)

lemma test_jane: "test email_re ''jane@x.com''"
  by (simp add: email_eval)

lemma error_middleware_status:
  "status (error_middleware err) = 400 \<or> status (error_middleware err) = 500"
  by (cases err) (simp_all add: json_def)

lemma post_apply_cases:
  "post_apply e req st =
     (case upload_single ''resume'' e (part req) st of
        (Inl err, st') \<Rightarrow> (error_middleware err, st')
      | (Inr None, st') \<Rightarrow> (json 400 False ''Please upload a resume'', st')
      | (Inr (Some f), st') \<Rightarrow> apply_handler e req (Some f) st')"
  by (simp add: post_apply_def apply_handler_def split: prod.splits sum.splits option.splits)

lemma post_apply_created:
  assumes "status (fst (post_apply e req st)) = 201"
  shows "\<exists>f st'. upload_single ''resume'' e (part req) st = (Inr (Some f), st') \<and>
                 post_apply e req st = apply_handler e req (Some f) st'"
proof (cases "upload_single ''resume'' e (part req) st")
  case (Pair r st')
  show ?thesis
  proof (cases r)
    case (Inl err)
    with Pair assms error_middleware_status [of err] show ?thesis
      by (simp add: post_apply_cases)
  next
    case (Inr reqfile)
    with Pair assms show ?thesis
      by (cases reqfile) (simp_all add: post_apply_cases json_def)
  qed
qed

lemma test_email_nonempty: "test email_re m \<Longrightarrow> m \<noteq> []"
  by (auto simp: email_eval)

lemma number_to_string_examples:
  "number_to_string 1730000000123 = ''1730000000123''"
  "number_to_string 123456789 = ''123456789''"
  by (simp_all add: number_to_string.simps digit_def)

lemma jane_filename: "storage_filename working_env jane_pdf = ''1730000000123-123456789.pdf''"
  by (simp add: storage_filename_def working_env_def jane_pdf_def number_to_string_examples extname_def)

lemma jane_upload:
  "upload_single ''resume'' working_env (Some jane_pdf) empty_state =
     (Inr (Some jane_file),
      empty_state\<lparr>uploads := [''uploads/1730000000123-123456789.pdf'' \<mapsto> ''%PDF-1.4 Jane'']\<rparr>)"
  by (simp add: upload_single_def fileFilter_def jane_filename Let_def storage_destination_def
      limits_fileSize_def jane_file_def)
     (simp add: jane_pdf_def empty_state_def)

lemma jane_violations:
  "contact_violations jane_body = []" "application_violations jane_body = []"
  by (simp_all add: contact_violations_def application_violations_def jane_body_def
      required_violation_def missing_def email_violation_def test_jane)

section \<open>Stored file names\<close>

lemma extname_loop_dot_seen:
  "i \<le> length p \<Longrightarrow> dot_seen p st \<Longrightarrow> dot_seen p (extname_loop p i st)"
proof (induction i arbitrary: st)
  case 0
  then show ?case by simp
next
  case (Suc i)
  from Suc.prems have i: "i < length p" "i \<le> length p" by simp_all
  show ?case
  proof (cases "p ! i = CHR ''/''")
    case True
    with Suc.prems Suc.IH [OF i(2)] show ?thesis
      by (auto simp: dot_seen_def)
  next
    case False
    define st1 where "st1 = (if endp st = -1 then st\<lparr>endp := int i + 1, matchedSlash := False\<rparr> else st)"
    define st2 where "st2 = (if p ! i = CHR ''.'' then
                     (if startDot st1 = -1 then st1\<lparr>startDot := int i\<rparr>
                      else if preDotState st1 \<noteq> 1 then st1\<lparr>preDotState := 1\<rparr>
                      else st1)
                   else if startDot st1 \<noteq> -1 then st1\<lparr>preDotState := -1\<rparr>
                   else st1)"
    from Suc.prems(2) have "dot_seen p st1"
      by (simp add: st1_def dot_seen_def)
    with i(1) have "dot_seen p st2"
      by (auto simp: st2_def dot_seen_def)
    then have "dot_seen p (extname_loop p i st2)"
      by (rule Suc.IH [OF i(2)])
    moreover from False have "extname_loop p (Suc i) st = extname_loop p i st2"
      by (simp add: Let_def st1_def st2_def)
    ultimately show ?thesis by simp
  qed
qed

lemma extname_dot_ext: "dot_ext (extname p)"
proof -
  define st where "st = extname_loop p (length p)
     \<lparr>startDot = -1, startPart = 0, endp = -1, matchedSlash = True, preDotState = 0\<rparr>"
  have seen: "dot_seen p st"
    unfolding st_def by (rule extname_loop_dot_seen) (simp_all add: dot_seen_def)
  show ?thesis
  proof (cases "extname p = []")
    case True
    then show ?thesis by (simp add: dot_ext_def)
  next
    case False
    then have e: "extname p = take (nat (endp st - startDot st)) (drop (nat (startDot st)) p)"
      and sd: "startDot st \<noteq> -1"
      by (auto simp: extname_def st_def [symmetric] Let_def split: if_splits)
    from seen sd have d: "nat (startDot st) < length p" "p ! nat (startDot st) = CHR ''.''"
      by (auto simp: dot_seen_def)
    then have "drop (nat (startDot st)) p = CHR ''.'' # drop (Suc (nat (startDot st))) p"
      by (metis Cons_nth_drop_Suc)
    with e False obtain t where "extname p = CHR ''.'' # t"
      by (cases "nat (endp st - startDot st)") auto
    then show ?thesis by (simp add: dot_ext_def)
  qed
qed

lemma digit_is_digit: "d < 10 \<Longrightarrow> is_digit (digit d)"
  by (simp add: digit_def is_digit_def)

lemma digit_code:
  assumes "d < 10"
  shows "(of_char (digit d) :: nat) = 48 + d"
proof -
  from assms have "d = 0 \<or> d = 1 \<or> d = 2 \<or> d = 3 \<or> d = 4 \<or> d = 5 \<or> d = 6 \<or> d = 7 \<or> d = 8 \<or> d = 9"
    by arith
  then show ?thesis
    by (elim disjE) (simp_all add: digit_def)
qed

lemma digit_inj:
  assumes "a < 10" "b < 10" "digit a = digit b"
  shows "a = b"
proof -
  have "48 + a = (of_char (digit a) :: nat)"
    by (simp only: digit_code [OF assms(1)])
  also have "\<dots> = of_char (digit b)"
    by (simp only: assms(3))
  also have "\<dots> = 48 + b"
    by (simp only: digit_code [OF assms(2)])
  finally show ?thesis by simp
qed

lemma number_to_string_digits: "list_all is_digit (number_to_string n)"
proof (induction n rule: number_to_string.induct)
  case (1 n)
  show ?case
  proof (cases "n < 10")
    case True
    then show ?thesis by (simp add: number_to_string.simps [of n] digit_is_digit)
  next
    case False
    with 1 show ?thesis
      by (simp add: number_to_string.simps [of n] digit_is_digit)
  qed
qed

lemma number_to_string_length:
  "length (number_to_string n) = 1 \<longleftrightarrow> n < 10"
proof (cases "n < 10")
  case True
  then show ?thesis by (simp add: number_to_string.simps [of n])
next
  case False
  then have "n div 10 < 10 \<or> \<not> n div 10 < 10" by simp
  have "number_to_string (n div 10) \<noteq> []"
    by (subst number_to_string.simps) simp
  with False show ?thesis
    by (simp add: number_to_string.simps [of n])
qed

lemma number_to_string_inj:
  "number_to_string n = number_to_string m \<Longrightarrow> n = m"
proof (induction n arbitrary: m rule: number_to_string.induct)
  case (1 n)
  show ?case
  proof (cases "n < 10")
    case True
    with "1.prems" number_to_string_length [of n] number_to_string_length [of m]
    have m: "m < 10" by simp
    with True "1.prems" show ?thesis
      by (simp add: number_to_string.simps [of n] number_to_string.simps [of m] digit_inj)
  next
    case False
    with "1.prems" number_to_string_length [of n] number_to_string_length [of m]
    have m: "\<not> m < 10" by simp
    with False "1.prems"
    have "number_to_string (n div 10) = number_to_string (m div 10)"
      and "digit (n mod 10) = digit (m mod 10)"
      by (simp_all add: number_to_string.simps [of n] number_to_string.simps [of m])
    with "1.IH" [OF False] have "n div 10 = m div 10" and "n mod 10 = m mod 10"
      by (auto intro: digit_inj)
    then show ?thesis by (metis div_mult_mod_eq)
  qed
qed

lemma digits_then_other:
  assumes "list_all is_digit a" and "list_all is_digit b"
    and "\<not> is_digit x" and "\<not> is_digit y"
    and "a @ x # r = b @ y # r'"
  shows "a = b \<and> x = y \<and> r = r'"
proof -
  have "takeWhile is_digit (a @ x # r) = a" "takeWhile is_digit (b @ y # r') = b"
    using assms(1-4) by (simp_all add: takeWhile_append2 list_all_iff)
  with assms(5) have "a = b" by simp
  with assms(5) show ?thesis by simp
qed

lemma digits_then_ext:
  assumes "list_all is_digit a" and "list_all is_digit b"
    and "dot_ext x" and "dot_ext y"
    and "a @ x = b @ y"
  shows "a = b \<and> x = y"
proof -
  have nd: "\<not> is_digit (CHR ''.'')" by (simp add: is_digit_def)
  have "takeWhile is_digit (a @ x) = a" "takeWhile is_digit (b @ y) = b"
    using assms(1-4) nd by (auto simp: takeWhile_append2 list_all_iff dot_ext_def)
  with assms(5) have "a = b" by simp
  with assms(5) show ?thesis by simp
qed

lemma storage_filename_eq:
  "storage_filename e f = storage_filename e' f' \<longleftrightarrow>
     upload_now e = upload_now e' \<and> math_random e = math_random e' \<and>
     extname (originalname f) = extname (originalname f')"
proof
  assume eq: "storage_filename e f = storage_filename e' f'"
  have nd: "\<not> is_digit (CHR ''-'')" by (simp add: is_digit_def)
  from eq have "number_to_string (upload_now e) @ CHR ''-'' #
        (number_to_string (math_random e) @ extname (originalname f)) =
      number_to_string (upload_now e') @ CHR ''-'' #
        (number_to_string (math_random e') @ extname (originalname f'))"
    by (simp add: storage_filename_def)
  from digits_then_other [OF number_to_string_digits number_to_string_digits nd nd this]
  have a: "number_to_string (upload_now e) = number_to_string (upload_now e')"
    and b: "number_to_string (math_random e) @ extname (originalname f) =
            number_to_string (math_random e') @ extname (originalname f')"
    by simp_all
  from digits_then_ext [OF number_to_string_digits number_to_string_digits
      extname_dot_ext extname_dot_ext b]
  have "number_to_string (math_random e) = number_to_string (math_random e')"
    and "extname (originalname f) = extname (originalname f')" by simp_all
  with a show "upload_now e = upload_now e' \<and> math_random e = math_random e' \<and>
     extname (originalname f) = extname (originalname f')"
    by (simp add: number_to_string_inj)
next
  assume "upload_now e = upload_now e' \<and> math_random e = math_random e' \<and>
     extname (originalname f) = extname (originalname f')"
  then show "storage_filename e f = storage_filename e' f'"
    by (simp add: storage_filename_def)
qed

lemma upload_single_accepted:
  assumes "upload_single field e (Some f) st = (Inr (Some sf), st')"
  shows "fieldname f = field" and "mimetype f = ''application/pdf''"
    and "length (content f) \<le> limits_fileSize"
    and "sf = \<lparr>filename = storage_filename e f, path = ''uploads/'' @ storage_filename e f,
               stored_originalname = originalname f, stored_mimetype = mimetype f\<rparr>"
    and "st' = st\<lparr>uploads := (uploads st)(''uploads/'' @ storage_filename e f \<mapsto> content f)\<rparr>"
  using assms
  by (auto simp: upload_single_def fileFilter_def Let_def storage_destination_def
      split: if_splits)

lemma same_name_bob_jane:
  "storage_filename working_env bob_pdf = storage_filename working_env jane_pdf"
  unfolding storage_filename_eq by (simp add: bob_pdf_def jane_pdf_def extname_def)

lemma bob_upload_over_jane:
  "upload_single ''resume'' working_env (Some bob_pdf)
     (empty_state\<lparr>uploads := [''uploads/1730000000123-123456789.pdf'' \<mapsto> ''%PDF-1.4 Jane'']\<rparr>) =
     (Inr (Some (jane_file\<lparr>stored_originalname := ''bob.pdf''\<rparr>)),
      empty_state\<lparr>uploads := [''uploads/1730000000123-123456789.pdf'' \<mapsto> ''%PDF-1.4 Bob'']\<rparr>)"
  by (simp add: upload_single_def fileFilter_def same_name_bob_jane jane_filename Let_def
      storage_destination_def limits_fileSize_def jane_file_def)
     (simp add: bob_pdf_def empty_state_def)

lemma first_two_collide:
  assumes "F x = F y"
  shows "\<not> distinct (map F (x # y # rest))"
  using assms by simp

lemma distinct_map_finer:
  assumes "distinct (map h xs)" and "\<And>x y. g x = g y \<Longrightarrow> h x = h y"
  shows "distinct (map g xs)"
  using assms(1)
proof (induction xs)
  case Nil
  show ?case by simp
next
  case (Cons x xs)
  have "g x \<notin> g ` set xs"
  proof
    assume "g x \<in> g ` set xs"
    then obtain y where y: "y \<in> set xs" "g x = g y" by blast
    from assms(2) [OF y(2)] y(1) have "h x \<in> h ` set xs" by simp
    with Cons.prems show False by simp
  qed
  moreover from Cons have "distinct (map g xs)" by simp
  ultimately show ?case by simp
qed

section \<open>Uploads, removal and the listing\<close>

lemma jane_upload_env:
  assumes "upload_now e = 1730000000123" and "math_random e = 123456789"
  shows "upload_single ''resume'' e (Some jane_pdf) st =
     (Inr (Some jane_file),
      st\<lparr>uploads := (uploads st)(''uploads/1730000000123-123456789.pdf'' \<mapsto> ''%PDF-1.4 Jane'')\<rparr>)"
proof -
  have "storage_filename e jane_pdf = storage_filename working_env jane_pdf"
    unfolding storage_filename_eq using assms by (simp add: working_env_def)
  then have n: "storage_filename e jane_pdf = ''1730000000123-123456789.pdf''"
    by (simp add: jane_filename)
  show ?thesis
    by (simp add: upload_single_def fileFilter_def n Let_def storage_destination_def
        limits_fileSize_def jane_file_def)
       (simp add: jane_pdf_def)
qed

lemma jane_new_application:
  "document_now e = 1730000000456 \<Longrightarrow> new_application e jane_request jane_file = jane_application"
  by (simp add: new_application_def jane_request_def jane_file_def jane_application_def jane_body_def)

lemma jane_apply:
  assumes "upload_now e = 1730000000123" and "math_random e = 123456789"
    and "document_now e = 1730000000456"
  shows "post_apply e jane_request st =
     (case store_failure e of
        None \<Rightarrow>
          (json 201 True ''Thank you for your application! We will review it shortly.'',
           st\<lparr>uploads := (uploads st)(''uploads/1730000000123-123456789.pdf'' \<mapsto> ''%PDF-1.4 Jane''),
              applications := applications st @ [jane_application]\<rparr>)
      | Some msg \<Rightarrow>
          (json 500 False ''Error submitting application. Please try again.'',
           unlink e ''uploads/1730000000123-123456789.pdf''
             (st\<lparr>uploads := (uploads st)(''uploads/1730000000123-123456789.pdf'' \<mapsto> ''%PDF-1.4 Jane'')\<rparr>)))"
proof -
  have p: "part jane_request = Some jane_pdf" "body jane_request = jane_body"
    by (simp_all add: jane_request_def)
  show ?thesis
    by (simp add: post_apply_cases p jane_upload_env [OF assms(1,2)] apply_handler_cases
        jane_violations jane_new_application [OF assms(3)] split: option.splits)
       (simp add: jane_file_def)
qed

lemma post_contact_store_detail:
  "post_contact (e\<lparr>store_failure := Some d\<rparr>) b st =
     (if contact_violations b \<noteq> [] then (json 400 False (join ''. '' (contact_violations b)), st)
      else (json 500 False ''Error submitting form. Please try again.'', st))"
  by (simp add: post_contact_cases)

lemma unlink_store_detail: "unlink (e\<lparr>store_failure := x\<rparr>) p st = unlink e p st"
  by (simp add: unlink_def)

lemma apply_handler_store_detail:
  "apply_handler (e\<lparr>store_failure := Some d\<rparr>) req (Some f) st =
     (if application_violations (body req) \<noteq> [] then
        (json 400 False (join ''. '' (application_violations (body req))), unlink e (path f) st)
      else (json 500 False ''Error submitting application. Please try again.'', unlink e (path f) st))"
  by (simp add: apply_handler_cases unlink_store_detail)

lemma find_sorted_mset: "mset (find_sorted xs) = mset xs"
  by (simp add: find_sorted_def)

lemma find_sorted_sorted:
  "sorted_wrt (\<lambda>a b. application.createdAt b \<le> application.createdAt a) (find_sorted xs)"
proof -
  have "sorted (map (\<lambda>a. - int (application.createdAt a)) (find_sorted xs))"
    unfolding find_sorted_def by (rule sorted_sort_key)
  then show ?thesis
    by (simp add: sorted_map)
qed

lemma two_sorted:
  assumes "mset xs = mset [a, b]"
    and "sorted_wrt (\<lambda>x y. application.createdAt y \<le> application.createdAt x) xs"
    and "application.createdAt a < application.createdAt b"
  shows "xs = [b, a]"
proof -
  from assms(1) have "length xs = length [a, b]" by (rule mset_eq_length)
  then have "length xs = Suc (Suc 0)" by simp
  then obtain x y where xs: "xs = [x, y]"
    by (auto simp: length_Suc_conv)
  with assms(1) have "{#x, y#} = {#a, b#}" by simp
  then have "(x = a \<and> y = b) \<or> (x = b \<and> y = a)"
    by (auto simp: add_eq_conv_diff)
  with assms(2,3) xs show ?thesis by auto
qed

lemma unlink_applications [simp]: "applications (unlink e p st) = applications st"
  by (simp add: unlink_def split: option.splits)

lemma unlink_removed: "unlink_failure e = None \<Longrightarrow> uploads (unlink e p st) p = None"
  by (simp add: unlink_def)

lemma unlink_failed: "unlink_failure e \<noteq> None \<Longrightarrow> unlink e p st = st"
  by (auto simp: unlink_def)

lemma upload_single_applications:
  "applications (snd (upload_single field e p st)) = applications st"
  by (simp add: upload_single_def fileFilter_def Let_def split: option.splits)

lemma upload_single_part:
  assumes "upload_single field e p st = (Inr (Some f), st1)"
  shows "\<exists>u. p = Some u"
  using assms by (cases p) (simp_all add: upload_single_def)

lemma post_contact_applications:
  "applications (snd (post_contact e b st)) = applications st"
  by (simp add: post_contact_cases split: option.splits)

lemma apply_handler_save_failed:
  assumes "save ''Application'' applicationSchema e (new_application e req f) (applications st1) = Inl err"
  shows "apply_handler e req (Some f) st1 =
     (if error_name err = ''ValidationError''
      then json 400 False (join ''. '' (map snd (error_errors err)))
      else json 500 False ''Error submitting application. Please try again.'',
      unlink e (path f) st1)"
  using assms
  by (simp add: apply_handler_def Let_def new_application_def)

lemma example_envs:
  "upload_now failing_store_env = 1730000000123" "math_random failing_store_env = 123456789"
  "document_now failing_store_env = 1730000000456"
  "store_failure failing_store_env = Some ''connection refused 10.0.0.7:27017''"
  "unlink_failure failing_store_env = None"
  "upload_now unlink_failing_env = 1730000000123" "math_random unlink_failing_env = 123456789"
  "document_now unlink_failing_env = 1730000000456"
  "store_failure unlink_failing_env = Some ''connection refused 10.0.0.7:27017''"
  "unlink_failure unlink_failing_env = Some ''EPERM: operation not permitted, unlink''"
  "upload_now working_env = 1730000000123" "math_random working_env = 123456789"
  "document_now working_env = 1730000000456" "store_failure working_env = None"
  by (simp_all add: working_env_def failing_store_env_def unlink_failing_env_def)

lemma jane_application_valid: "validate applicationSchema jane_application = []"
proof -
  have "map snd (validate applicationSchema jane_application) = []"
    unfolding validate_applicationSchema
    by (simp add: jane_application_def required_violation_def missing_def email_violation_def
        test_jane)
  then show ?thesis by simp
qed

lemma jane_save_failed:
  assumes "document_now e = 1730000000456" and "store_failure e = Some msg"
  shows "save ''Application'' applicationSchema e (new_application e jane_request jane_file) coll =
         Inl (Error msg)"
  by (simp add: save_cases jane_new_application [OF assms(1)] jane_application_valid assms(2))

lemma jane_upload_stored:
  assumes "upload_now e = 1730000000123" and "math_random e = 123456789"
  shows "upload_single ''resume'' e (part jane_request) empty_state = (Inr (Some jane_file), jane_stored)"
  by (simp add: jane_request_def jane_upload_env [OF assms] jane_stored_def empty_state_def)

section \<open>Failed saves and unvalidated submissions\<close>

lemma contains_length: "contains s t \<Longrightarrow> length t \<le> length s"
  by (auto simp: contains_def)

lemma info_label: "last_label ''a@b.info'' = ''info''"
  by (simp add: last_label_def)

lemma info_upload_stored:
  "upload_single ''resume'' working_env (part info_request) empty_state =
     (Inr (Some jane_file), jane_stored)"
  by (simp add: info_request_def jane_upload_env [OF example_envs(11,12)] jane_stored_def
      empty_state_def)

lemma unlink_jane_stored:
  "unlink_failure e = None \<Longrightarrow> unlink e (path jane_file) jane_stored = empty_state"
  by (simp add: unlink_def jane_stored_def jane_file_def empty_state_def)

lemma save_failed_cases:
  assumes "save model sch e d coll = Inl err"
  shows "(error_name err = ''ValidationError'' \<and> error_errors err = validate sch d \<and>
          validate sch d \<noteq> []) \<or>
         (error_name err \<noteq> ''ValidationError'' \<and> validate sch d = [] \<and>
          store_failure e = Some (error_message err) \<and> err = Error (error_message err))"
  using assms by (auto simp: save_cases split: if_splits option.splits)

lemma post_contact_save_failed:
  assumes "save ''Contact'' contactSchema e (new_contact e b) (contacts st) = Inl err"
  shows "post_contact e b st =
     (if error_name err = ''ValidationError''
      then json 400 False (join ''. '' (map snd (error_errors err)))
      else json 500 False ''Error submitting form. Please try again.'', st)"
  using assms by (simp add: post_contact_def Let_def new_contact_def)

lemma test_info: "\<not> test email_re ''a@b.info''"
  by (simp add: email_eval)

lemma jane_contact_save_failed:
  "save ''Contact'' contactSchema failing_store_env (new_contact failing_store_env jane_body)
     (contacts empty_state) = Inl (Error ''connection refused 10.0.0.7:27017'')"
proof -
  have n: "new_contact failing_store_env jane_body = jane_contact"
    by (simp add: new_contact_def jane_contact_def jane_body_def example_envs)
  have "map snd (validate contactSchema jane_contact) = []"
    unfolding validate_contactSchema
    by (simp add: jane_contact_def required_violation_def missing_def email_violation_def test_jane)
  then have "validate contactSchema jane_contact = []" by simp
  then show ?thesis by (simp add: save_cases n example_envs)
qed

lemma unnamed_contact_invalid:
  "validate contactSchema (new_contact working_env unnamed_body) = [(''name'', ''Name is required'')]"
  by (simp add: contactSchema_def new_contact_def unnamed_body_def test_a_b_com)

lemma info_application_invalid:
  "validate applicationSchema (new_application working_env info_request jane_file) =
     [(''email'', ''Please enter a valid email address'')]"
  by (simp add: applicationSchema_def new_application_def info_request_def info_body_def
      jane_body_def test_info)

lemma unnamed_contact_save_failed:
  "save ''Contact'' contactSchema working_env (new_contact working_env unnamed_body)
     (contacts empty_state) =
   Inl (ValidationError (validation_message ''Contact'' [(''name'', ''Name is required'')])
          [(''name'', ''Name is required'')])"
  by (simp add: save_cases unnamed_contact_invalid)

lemma info_application_save_failed:
  "save ''Application'' applicationSchema working_env
     (new_application working_env info_request jane_file) (applications jane_stored) =
   Inl (ValidationError
          (validation_message ''Application'' [(''email'', ''Please enter a valid email address'')])
          [(''email'', ''Please enter a valid email address'')])"
  by (simp add: save_cases info_application_invalid)

section \<open>The application route without a file\<close>

text \<open>
  C3. An application submission with no attached file is answered with status 400
  and \<open>success = false\<close> ("Please upload a resume"); whatever the store would do, no
  write is attempted: the state after the request is the state before it.
\<close>

theorem apply_without_file:
  assumes "part req = None"
  shows "post_apply e req st = (json 400 False ''Please upload a resume'', st) \<and>
         status (fst (post_apply e req st)) = 400 \<and>
         success (fst (post_apply e req st)) = False \<and>
         applications (snd (post_apply e req st)) = applications st \<and>
         contacts (snd (post_apply e req st)) = contacts st \<and>
         snd (post_apply e req st) = st"
  using assms
  by (simp add: post_apply_def upload_single_def apply_handler_def json_def)

theorem apply_without_file_witness:
  "part (no_file_request) = None \<and>
   post_apply failing_store_env no_file_request empty_state =
     (json 400 False ''Please upload a resume'', empty_state) \<and>
   status (fst (post_apply failing_store_env no_file_request empty_state)) = 400 \<and>
   snd (post_apply failing_store_env no_file_request empty_state) = empty_state"
  using apply_without_file [of no_file_request failing_store_env empty_state]
  by (simp add: no_file_request_def json_def)

section \<open>Contact submissions\<close>

text \<open>
  C5. A contact submission with a required field missing (absent, or present but
  empty) is answered with status 400 and \<open>success = false\<close>; the message is the
  violation messages of all violated fields joined with \<open>". "\<close>, so it contains
  the message of each violated field, such as "Name is required". Nothing is stored.
\<close>

theorem contact_missing_required_field:
  assumes "missing (b ''name'') \<or> missing (b ''email'') \<or> missing (b ''message'')"
  shows "\<exists>m. post_contact e b st = (json 400 False m, st) \<and>
             status (fst (post_contact e b st)) = 400 \<and>
             success (fst (post_contact e b st)) = False \<and>
             message (fst (post_contact e b st)) = Some m \<and>
             m = join ''. '' (contact_violations b) \<and>
             (missing (b ''name'') \<longrightarrow> contains m ''Name is required'') \<and>
             (missing (b ''email'') \<longrightarrow> contains m ''Email is required'') \<and>
             (missing (b ''message'') \<longrightarrow> contains m ''Message is required'') \<and>
             (\<forall>v \<in> set (contact_violations b). contains m v)"
proof -
  let ?m = "join ''. '' (contact_violations b)"
  have n: "missing (b ''name'') \<Longrightarrow> ''Name is required'' \<in> set (contact_violations b)"
    by (simp add: contact_violations_def required_violation_def)
  have em: "missing (b ''email'') \<Longrightarrow> ''Email is required'' \<in> set (contact_violations b)"
    by (auto simp: contact_violations_def email_violation_def missing_def)
  have ms: "missing (b ''message'') \<Longrightarrow> ''Message is required'' \<in> set (contact_violations b)"
    by (simp add: contact_violations_def required_violation_def)
  from assms n em ms have ne: "contact_violations b \<noteq> []" by auto
  then have r: "post_contact e b st = (json 400 False ?m, st)"
    by (simp add: post_contact_cases)
  show ?thesis
    unfolding r using n em ms
    by (auto simp: json_def intro: join_contains)
qed

theorem contact_missing_required_field_witness:
  "missing (unnamed_body ''name'') \<and>
   post_contact working_env unnamed_body empty_state = (json 400 False ''Name is required'', empty_state) \<and>
   contains ''Name is required'' ''Name is required''"
proof -
  have h: "missing (unnamed_body ''name'')"
    by (simp add: unnamed_body_def missing_def)
  have v: "contact_violations unnamed_body = [''Name is required'']"
    by (simp add: contact_violations_def unnamed_body_def required_violation_def missing_def
        email_violation_def test_a_b_com)
  from contact_missing_required_field [of unnamed_body working_env empty_state] h
  obtain m where m: "post_contact working_env unnamed_body empty_state = (json 400 False m, empty_state)"
      "m = join ''. '' (contact_violations unnamed_body)" "contains m ''Name is required''"
    by blast
  from m(2) v have "m = ''Name is required''" by simp
  with m h show ?thesis by simp
qed

text \<open>
  C4 (as stated). A contact submission whose fields all pass validation is not always
  stored and answered with 201: when the store fails, the route answers 500 and
  stores nothing.
\<close>

theorem contact_valid_store_failure:
  "validate contactSchema jane_contact = [] \<and>
   post_contact failing_store_env jane_body empty_state =
     (json 500 False ''Error submitting form. Please try again.'', empty_state) \<and>
   status (fst (post_contact failing_store_env jane_body empty_state)) = 500 \<and>
   contacts (snd (post_contact failing_store_env jane_body empty_state)) = []"
proof -
  have "map snd (validate contactSchema jane_contact) = []"
    unfolding validate_contactSchema
    by (simp add: jane_contact_def required_violation_def missing_def email_violation_def test_jane)
  then have v: "validate contactSchema jane_contact = []" by simp
  have r: "post_contact failing_store_env jane_body empty_state =
     (json 500 False ''Error submitting form. Please try again.'', empty_state)"
    by (simp add: post_contact_cases jane_violations failing_store_env_def)
  show ?thesis unfolding r using v by (simp add: json_def empty_state_def)
qed

text \<open>
  C4 (amended). For a contact submission whose fields pass validation (name and
  message not empty, email matching the pattern): when the write to the store
  succeeds, a Contact record with exactly the submitted values (and the time of
  its construction) is added to the collection and the response is 201 with
  \<open>success = true\<close> and the fixed acknowledgement; when the store fails, the
  response is 500 with the fixed message and nothing is stored.
\<close>

theorem contact_valid_submission:
  assumes "b ''name'' = Some n" and "n \<noteq> []"
    and "b ''email'' = Some m" and "test email_re m"
    and "b ''message'' = Some t" and "t \<noteq> []"
  shows "(store_failure e = None \<longrightarrow>
            post_contact e b st =
              (json 201 True ''Thank you! We will connect shortly.'',
               st\<lparr>contacts := contacts st @
                  [\<lparr>contact.name = Some n, email = Some m, message = Some t,
                    createdAt = document_now e\<rparr>]\<rparr>) \<and>
            status (fst (post_contact e b st)) = 201 \<and>
            success (fst (post_contact e b st)) = True) \<and>
         (store_failure e \<noteq> None \<longrightarrow>
            post_contact e b st =
              (json 500 False ''Error submitting form. Please try again.'', st))"
proof -
  from assms test_email_nonempty [of m] have v: "contact_violations b = []"
    by (simp add: contact_violations_def required_violation_def missing_def email_violation_def)
  show ?thesis
    using assms by (auto simp: post_contact_cases v json_def)
qed

theorem contact_valid_submission_witness:
  "jane_body ''name'' = Some ''Jane'' \<and> jane_body ''email'' = Some ''jane@x.com'' \<and>
   test email_re ''jane@x.com'' \<and> jane_body ''message'' = Some ''hi'' \<and>
   store_failure working_env = None \<and>
   post_contact working_env jane_body empty_state =
     (json 201 True ''Thank you! We will connect shortly.'',
      empty_state\<lparr>contacts := [jane_contact]\<rparr>) \<and>
   store_failure failing_store_env \<noteq> None \<and>
   post_contact failing_store_env jane_body empty_state =
     (json 500 False ''Error submitting form. Please try again.'', empty_state)"
proof -
  have h: "jane_body ''name'' = Some ''Jane''" "''Jane'' \<noteq> []"
    "jane_body ''email'' = Some ''jane@x.com''" "test email_re ''jane@x.com''"
    "jane_body ''message'' = Some ''hi''" "''hi'' \<noteq> []"
    by (simp_all add: jane_body_def test_jane)
  have e: "store_failure working_env = None" "store_failure failing_store_env \<noteq> None"
    "document_now working_env = 1730000000456"
    by (simp_all add: working_env_def failing_store_env_def)
  from contact_valid_submission [OF h, of working_env empty_state]
       contact_valid_submission [OF h, of failing_store_env empty_state] h e
  show ?thesis by (simp add: jane_contact_def empty_state_def)
qed

section \<open>The email pattern\<close>

text \<open>
  C10 (as stated). An application submission whose email has a top-level domain
  longer than three characters is not always rejected with the message of the
  pattern: the route looks at the email only when it validates the document, after
  the upload. With no file, \<open>a@b.info\<close> is answered "Please upload a resume"; with
  a file that is not a PDF, it is answered with the message of the file filter.
\<close>

theorem email_unvalidated_without_file:
  "body info_no_file_request ''email'' = Some ''a@b.info'' \<and>
   last_label ''a@b.info'' = ''info'' \<and>
   post_apply working_env info_no_file_request empty_state =
     (json 400 False ''Please upload a resume'', empty_state) \<and>
   \<not> contains ''Please upload a resume'' ''Please enter a valid email address'' \<and>
   body info_png_request ''email'' = Some ''a@b.info'' \<and>
   post_apply working_env info_png_request empty_state =
     (json 500 False ''Only PDF files are allowed!'', empty_state) \<and>
   \<not> contains ''Only PDF files are allowed!'' ''Please enter a valid email address''"
proof -
  have b: "body info_no_file_request ''email'' = Some ''a@b.info''"
    "body info_png_request ''email'' = Some ''a@b.info''"
    by (simp_all add: info_no_file_request_def info_png_request_def info_body_def)
  have n: "post_apply working_env info_no_file_request empty_state =
     (json 400 False ''Please upload a resume'', empty_state)"
    by (simp add: post_apply_def upload_single_def apply_handler_def info_no_file_request_def)
  have p: "post_apply working_env info_png_request empty_state =
     (json 500 False ''Only PDF files are allowed!'', empty_state)"
    by (simp add: post_apply_def upload_single_def fileFilter_def info_png_request_def png_upload_def)
  have c1: "\<not> contains ''Please upload a resume'' ''Please enter a valid email address''"
    using contains_length [of "''Please upload a resume''" "''Please enter a valid email address''"]
    by auto
  have c2: "\<not> contains ''Only PDF files are allowed!'' ''Please enter a valid email address''"
    using contains_length [of "''Only PDF files are allowed!''" "''Please enter a valid email address''"]
    by auto
  from b info_label n p c1 c2 show ?thesis by blast
qed

text \<open>
  C10 (amended). An email value is accepted only if its final dot-separated label,
  the top-level domain, is two or three word characters long: a value the pattern
  matches ends in a dot and that label, and every contact and every application
  submission answered with 201 has such an email. A value whose final label is
  longer than three characters (such as \<open>a@b.info\<close>) fails the pattern, and
  validation of a Contact and of an Application document with it reports the message
  of the pattern; every contact submission with it, and every application submission
  with it whose file has been accepted and stored, is answered with status 400 and a
  message containing the message of the pattern.
\<close>

theorem email_top_level_domain:
  "(test email_re v \<longrightarrow>
      (\<exists>p. v = p @ CHR ''.'' # last_label v) \<and>
      (length (last_label v) = 2 \<or> length (last_label v) = 3) \<and>
      list_all is_word (last_label v)) \<and>
   (3 < length (last_label v) \<longrightarrow>
      \<not> test email_re v \<and>
      (contact.email c = Some v \<longrightarrow>
         ''Please enter a valid email address'' \<in> set (map snd (validate contactSchema c))) \<and>
      (application.email a = Some v \<longrightarrow>
         ''Please enter a valid email address'' \<in> set (map snd (validate applicationSchema a))) \<and>
      (b ''email'' = Some v \<longrightarrow>
         (\<exists>m. post_contact e b st = (json 400 False m, st) \<and>
              contains m ''Please enter a valid email address'')) \<and>
      (body req ''email'' = Some v \<and>
       upload_single ''resume'' e (part req) st = (Inr (Some f), st1) \<longrightarrow>
         (\<exists>m. post_apply e req st = (json 400 False m, unlink e (path f) st1) \<and>
              contains m ''Please enter a valid email address''))) \<and>
   (status (fst (post_contact e b st)) = 201 \<longrightarrow>
      (\<exists>w. b ''email'' = Some w \<and> test email_re w \<and>
           (length (last_label w) = 2 \<or> length (last_label w) = 3) \<and>
           list_all is_word (last_label w))) \<and>
   (status (fst (post_apply e req st)) = 201 \<longrightarrow>
      (\<exists>w. body req ''email'' = Some w \<and> test email_re w \<and>
           (length (last_label w) = 2 \<or> length (last_label w) = 3) \<and>
           list_all is_word (last_label w)))"
proof (intro conjI impI)
  assume t: "test email_re v"
  from test_email_last_label(1) [OF t] show "\<exists>p. v = p @ CHR ''.'' # last_label v" by blast
  from test_email_last_label(2) [OF t]
  show "length (last_label v) = 2 \<or> length (last_label v) = 3" .
  from test_email_last_label(3) [OF t] show "list_all is_word (last_label v)" .
next
  assume l: "3 < length (last_label v)"
  with test_email_last_label(2) [of v] show "\<not> test email_re v" by auto
next
  assume l: "3 < length (last_label v)" and c: "contact.email c = Some v"
  show "''Please enter a valid email address'' \<in> set (map snd (validate contactSchema c))"
    unfolding validate_contactSchema by (simp add: c long_label_violation [OF l])
next
  assume l: "3 < length (last_label v)" and a: "application.email a = Some v"
  show "''Please enter a valid email address'' \<in> set (map snd (validate applicationSchema a))"
    unfolding validate_applicationSchema by (simp add: a long_label_violation [OF l])
next
  assume l: "3 < length (last_label v)" and b: "b ''email'' = Some v"
  have in_v: "''Please enter a valid email address'' \<in> set (contact_violations b)"
    by (simp add: contact_violations_def b long_label_violation [OF l])
  then have "contact_violations b \<noteq> []" by auto
  then have "post_contact e b st = (json 400 False (join ''. '' (contact_violations b)), st)"
    by (simp add: post_contact_cases)
  with join_contains [OF in_v]
  show "\<exists>m. post_contact e b st = (json 400 False m, st) \<and>
            contains m ''Please enter a valid email address''" by blast
next
  assume l: "3 < length (last_label v)"
    and h: "body req ''email'' = Some v \<and>
       upload_single ''resume'' e (part req) st = (Inr (Some f), st1)"
  then have b: "body req ''email'' = Some v"
    and up: "upload_single ''resume'' e (part req) st = (Inr (Some f), st1)" by simp_all
  have in_v: "''Please enter a valid email address'' \<in> set (application_violations (body req))"
    by (simp add: application_violations_def b long_label_violation [OF l])
  then have "application_violations (body req) \<noteq> []" by auto
  then have "post_apply e req st =
      (json 400 False (join ''. '' (application_violations (body req))), unlink e (path f) st1)"
    by (simp add: post_apply_cases up apply_handler_cases)
  with join_contains [OF in_v]
  show "\<exists>m. post_apply e req st = (json 400 False m, unlink e (path f) st1) \<and>
            contains m ''Please enter a valid email address''" by blast
next
  assume s: "status (fst (post_contact e b st)) = 201"
  then have "contact_violations b = []"
    by (auto simp: post_contact_cases json_def split: if_splits)
  then have "email_violation (b ''email'') = []"
    by (simp add: contact_violations_def)
  then obtain w where w: "b ''email'' = Some w" "test email_re w"
    using no_email_violation by blast
  with test_email_last_label(2,3) [OF w(2)]
  show "\<exists>w. b ''email'' = Some w \<and> test email_re w \<and>
           (length (last_label w) = 2 \<or> length (last_label w) = 3) \<and>
           list_all is_word (last_label w)" by blast
next
  assume s: "status (fst (post_apply e req st)) = 201"
  with post_apply_created [OF s] obtain f st'
    where "status (fst (apply_handler e req (Some f) st')) = 201" by auto
  then have "application_violations (body req) = []"
    by (auto simp: apply_handler_cases json_def split: if_splits)
  then have "email_violation (body req ''email'') = []"
    by (simp add: application_violations_def)
  then obtain w where w: "body req ''email'' = Some w" "test email_re w"
    using no_email_violation by blast
  with test_email_last_label(2,3) [OF w(2)]
  show "\<exists>w. body req ''email'' = Some w \<and> test email_re w \<and>
           (length (last_label w) = 2 \<or> length (last_label w) = 3) \<and>
           list_all is_word (last_label w)" by blast
qed

theorem email_top_level_domain_witness:
  "test email_re ''jane@x.com'' \<and>
   last_label ''jane@x.com'' = ''com'' \<and>
   status (fst (post_contact working_env jane_body empty_state)) = 201 \<and>
   status (fst (post_apply working_env jane_request empty_state)) = 201 \<and>
   last_label ''a@b.info'' = ''info'' \<and>
   \<not> test email_re ''a@b.info'' \<and>
   post_contact working_env info_body empty_state =
     (json 400 False ''Please enter a valid email address'', empty_state) \<and>
   body info_request ''email'' = Some ''a@b.info'' \<and>
   upload_single ''resume'' working_env (part info_request) empty_state =
     (Inr (Some jane_file), jane_stored) \<and>
   post_apply working_env info_request empty_state =
     (json 400 False ''Please enter a valid email address'', empty_state)"
proof -
  have l: "last_label ''jane@x.com'' = ''com''"
    by (simp add: last_label_def)
  from info_label have long: "3 < length (last_label ''a@b.info'')" by simp
  have b: "info_body ''email'' = Some ''a@b.info''" "body info_request ''email'' = Some ''a@b.info''"
    by (simp_all add: info_body_def info_request_def)
  note t = email_top_level_domain [where v = "''a@b.info''" and e = working_env and b = info_body
      and st = empty_state and req = info_request and f = jane_file and ?st1.0 = jane_stored]
  from t long have nt: "\<not> test email_re ''a@b.info''" by blast
  have cv: "contact_violations info_body = [''Please enter a valid email address'']"
    by (simp add: contact_violations_def info_body_def jane_body_def required_violation_def
        missing_def email_violation_def nt)
  have av: "application_violations info_body = [''Please enter a valid email address'']"
    by (simp add: application_violations_def info_body_def jane_body_def required_violation_def
        missing_def email_violation_def nt)
  have r: "post_contact working_env info_body empty_state =
     (json 400 False ''Please enter a valid email address'', empty_state)"
    by (simp add: post_contact_cases cv)
  from t long b(2) info_upload_stored
  obtain m where m: "post_apply working_env info_request empty_state =
      (json 400 False m, unlink working_env (path jane_file) jane_stored)"
    by blast
  have "post_apply working_env info_request empty_state =
      (json 400 False ''Please enter a valid email address'',
       unlink working_env (path jane_file) jane_stored)"
    by (simp add: post_apply_cases info_upload_stored apply_handler_cases)
       (simp add: info_request_def av)
  moreover have "unlink working_env (path jane_file) jane_stored = empty_state"
    by (rule unlink_jane_stored) (simp add: working_env_def)
  ultimately have ra: "post_apply working_env info_request empty_state =
     (json 400 False ''Please enter a valid email address'', empty_state)"
    using m by simp
  have ok: "status (fst (post_contact working_env jane_body empty_state)) = 201"
    by (simp add: post_contact_cases jane_violations working_env_def json_def)
  have oka: "status (fst (post_apply working_env jane_request empty_state)) = 201"
    by (simp add: jane_apply [OF example_envs(11-13)] example_envs(14) json_def)
  note t' = email_top_level_domain [where v = "''jane@x.com''" and e = working_env and b = jane_body
      and st = empty_state and req = jane_request]
  from t' ok have "test email_re ''jane@x.com''"
    by (auto simp: jane_body_def)
  with l info_label nt r b(2) info_upload_stored ra ok oka show ?thesis by blast
qed

section \<open>The names of the stored files\<close>

text \<open>
  C7 (as stated). The stored name of an accepted upload does not always end in
  \<open>.pdf\<close>: the filter looks at the content type only, and the name takes the
  extension of the original name. A file sent as \<open>application/pdf\<close> under the
  name \<open>cv.txt\<close> is accepted and stored as \<open>1730000000123-123456789.txt\<close>.
\<close>

theorem stored_filename_txt:
  "mimetype txt_upload = ''application/pdf'' \<and>
   upload_single ''resume'' working_env (Some txt_upload) empty_state =
     (Inr (Some \<lparr>filename = ''1730000000123-123456789.txt'',
                 path = ''uploads/1730000000123-123456789.txt'',
                 stored_originalname = ''cv.txt'', stored_mimetype = ''application/pdf''\<rparr>),
      empty_state\<lparr>uploads := [''uploads/1730000000123-123456789.txt'' \<mapsto> ''%PDF-1.4 Jane'']\<rparr>)"
proof -
  have n: "storage_filename working_env txt_upload = ''1730000000123-123456789.txt''"
    by (simp add: storage_filename_def working_env_def txt_upload_def number_to_string_examples
        extname_def)
  show ?thesis
    by (simp add: upload_single_def fileFilter_def n Let_def storage_destination_def
        limits_fileSize_def)
       (simp add: txt_upload_def empty_state_def)
qed

text \<open>
  C7 (amended). The stored name of an accepted upload is the decimal timestamp of
  the upload, a hyphen, the decimal random number, and the extension of the original
  name as \<open>path.extname\<close> gives it (empty, or a dot and more); it ends in the
  literal \<open>.pdf\<close> exactly when that extension is \<open>.pdf\<close>. The file is written
  under \<open>uploads/\<close> and that name.
\<close>

theorem stored_filename_form:
  assumes "upload_single field e (Some f) st = (Inr (Some sf), st')"
  shows "filename sf =
           number_to_string (upload_now e) @ ''-'' @ number_to_string (math_random e) @
           extname (originalname f) \<and>
         list_all is_digit (number_to_string (upload_now e)) \<and>
         list_all is_digit (number_to_string (math_random e)) \<and>
         (extname (originalname f) = [] \<or> (\<exists>t. extname (originalname f) = CHR ''.'' # t)) \<and>
         (filename sf =
            number_to_string (upload_now e) @ ''-'' @ number_to_string (math_random e) @ ''.pdf''
          \<longleftrightarrow> extname (originalname f) = ''.pdf'') \<and>
         path sf = ''uploads/'' @ filename sf \<and>
         uploads st' (path sf) = Some (content f)"
proof -
  note a = upload_single_accepted [OF assms]
  have "filename sf = storage_filename e f" by (simp add: a(4))
  then have n: "filename sf =
           number_to_string (upload_now e) @ ''-'' @ number_to_string (math_random e) @
           extname (originalname f)"
    by (simp add: storage_filename_def)
  from extname_dot_ext [of "originalname f"]
  have d: "extname (originalname f) = [] \<or> (\<exists>t. extname (originalname f) = CHR ''.'' # t)"
    by (simp add: dot_ext_def)
  have p: "path sf = ''uploads/'' @ filename sf" by (simp add: a(4))
  have u: "uploads st' (path sf) = Some (content f)" by (simp add: a(4) a(5))
  from n d p u show ?thesis
    by (simp add: number_to_string_digits)
qed

theorem stored_filename_form_witness:
  "upload_single ''resume'' working_env (Some jane_pdf) empty_state =
     (Inr (Some jane_file),
      empty_state\<lparr>uploads := [''uploads/1730000000123-123456789.pdf'' \<mapsto> ''%PDF-1.4 Jane'']\<rparr>) \<and>
   filename jane_file = ''1730000000123-123456789.pdf'' \<and>
   extname (originalname jane_pdf) = ''.pdf''"
proof -
  from stored_filename_form [OF jane_upload]
  have "filename jane_file =
      number_to_string (upload_now working_env) @ ''-'' @ number_to_string (math_random working_env) @ ''.pdf''
      \<longleftrightarrow> extname (originalname jane_pdf) = ''.pdf''"
    by blast
  moreover have "filename jane_file = ''1730000000123-123456789.pdf''"
    by (simp add: jane_file_def)
  ultimately have "extname (originalname jane_pdf) = ''.pdf''"
    by (simp add: working_env_def number_to_string_examples)
  with jane_upload show ?thesis by (simp add: jane_file_def)
qed

text \<open>
  C8 (as stated). Among 1000 uploads the stored names need not be pairwise distinct:
  two uploads that read the same millisecond and draw the same random number, with
  the same extension, get the same name, and the second file replaces the first.
\<close>

theorem stored_filename_collision:
  "length thousand_uploads = 1000 \<and>
   \<not> distinct (map (\<lambda>(e, f). storage_filename e f) thousand_uploads) \<and>
   storage_filename working_env jane_pdf = storage_filename working_env bob_pdf \<and>
   upload_single ''resume'' working_env (Some bob_pdf)
     (snd (upload_single ''resume'' working_env (Some jane_pdf) empty_state)) =
     (Inr (Some (jane_file\<lparr>stored_originalname := ''bob.pdf''\<rparr>)),
      empty_state\<lparr>uploads := [''uploads/1730000000123-123456789.pdf'' \<mapsto> ''%PDF-1.4 Bob'']\<rparr>)"
proof -
  have "length thousand_uploads = Suc (Suc (length [2..<1000::nat]))"
    by (simp only: thousand_uploads_def length_Cons length_map)
  also have "length [2..<1000::nat] = 998"
    by (simp del: upt_rec_numeral)
  finally have l: "length thousand_uploads = 1000" by simp
  have d: "\<not> distinct (map (\<lambda>(e, f). storage_filename e f) thousand_uploads)"
    unfolding thousand_uploads_def
    by (rule first_two_collide) (simp add: same_name_bob_jane)
  have u: "snd (upload_single ''resume'' working_env (Some jane_pdf) empty_state) =
      empty_state\<lparr>uploads := [''uploads/1730000000123-123456789.pdf'' \<mapsto> ''%PDF-1.4 Jane'']\<rparr>"
    by (simp only: jane_upload snd_conv)
  show ?thesis
    unfolding u using l d same_name_bob_jane bob_upload_over_jane by simp
qed

text \<open>
  C8 (amended). Two uploads get the same stored name exactly when they read the same
  timestamp, draw the same random number and have the same extension; so the stored
  names of any list of uploads (of 1000 and more too) are pairwise distinct whenever
  their (timestamp, random number) pairs are.
\<close>

theorem stored_filename_distinct:
  "(storage_filename e f = storage_filename e' f' \<longleftrightarrow>
      upload_now e = upload_now e' \<and> math_random e = math_random e' \<and>
      extname (originalname f) = extname (originalname f')) \<and>
   (distinct (map (\<lambda>(e, f). (upload_now e, math_random e)) us) \<longrightarrow>
      distinct (map (\<lambda>(e, f). storage_filename e f) us))"
proof (intro conjI impI)
  show "storage_filename e f = storage_filename e' f' \<longleftrightarrow>
      upload_now e = upload_now e' \<and> math_random e = math_random e' \<and>
      extname (originalname f) = extname (originalname f')"
    by (rule storage_filename_eq)
next
  assume "distinct (map (\<lambda>(e, f). (upload_now e, math_random e)) us)"
  then show "distinct (map (\<lambda>(e, f). storage_filename e f) us)"
    by (rule distinct_map_finer [where h = "\<lambda>(e, f). (upload_now e, math_random e)"])
       (auto simp: storage_filename_eq)
qed

theorem stored_filename_distinct_witness:
  "distinct (map (\<lambda>(e, f). (upload_now e, math_random e)) two_uploads) \<and>
   distinct (map (\<lambda>(e, f). storage_filename e f) two_uploads) \<and>
   storage_filename working_env jane_pdf \<noteq>
     storage_filename (working_env\<lparr>math_random := 987654321\<rparr>) bob_pdf"
proof -
  have h: "distinct (map (\<lambda>(e, f). (upload_now e, math_random e)) two_uploads)"
    by (simp add: two_uploads_def working_env_def)
  with stored_filename_distinct [where us = two_uploads]
  have d: "distinct (map (\<lambda>(e, f). storage_filename e f) two_uploads)" by blast
  then have "storage_filename working_env jane_pdf \<noteq>
     storage_filename (working_env\<lparr>math_random := 987654321\<rparr>) bob_pdf"
    by (simp add: two_uploads_def)
  with h d show ?thesis by simp
qed

section \<open>Uploads that are not PDF\<close>

text \<open>
  C2. An application submission carrying a file whose content type is not PDF should
  be answered with status 400 and leave no file behind. The route leaves no file
  behind, but the error of the file filter is a plain error, not one of the upload
  middleware, so the error handling middleware answers it with status 500 and the
  error's message ("Only PDF files are allowed!").
\<close>

theorem non_pdf_upload:
  assumes "part req = Some f" and "fieldname f = ''resume''"
    and "mimetype f \<noteq> ''application/pdf''"
  shows "post_apply e req st = (json 500 False ''Only PDF files are allowed!'', st) \<and>
         status (fst (post_apply e req st)) = 500 \<and>
         uploads (snd (post_apply e req st)) = uploads st"
  using assms
  by (simp add: post_apply_def upload_single_def fileFilter_def json_def)

theorem non_pdf_upload_witness:
  "part png_request = Some png_upload \<and> fieldname png_upload = ''resume'' \<and>
   mimetype png_upload \<noteq> ''application/pdf'' \<and>
   post_apply working_env png_request empty_state =
     (json 500 False ''Only PDF files are allowed!'', empty_state) \<and>
   status (fst (post_apply working_env png_request empty_state)) = 500"
proof -
  have h: "part png_request = Some png_upload" "fieldname png_upload = ''resume''"
    "mimetype png_upload \<noteq> ''application/pdf''"
    by (simp_all add: png_request_def png_upload_def)
  from non_pdf_upload [OF h, of working_env empty_state] h show ?thesis by (simp add: json_def)
qed

section \<open>Messages of failed requests\<close>

text \<open>
  C9 (as stated). The message of a failed request is not always a fixed generic
  string: the error handling middleware answers every error that is not an upload
  error with the error's own message. A PNG upload is answered with the message of
  the filter's error, and an error of the body parser with its message.
\<close>

theorem middleware_surfaces_message:
  "fileFilter png_upload = Inl (Error ''Only PDF files are allowed!'') \<and>
   error_name (Error ''Only PDF files are allowed!'') \<noteq> ''ValidationError'' \<and>
   fst (post_apply working_env png_request empty_state) =
     json 500 False ''Only PDF files are allowed!'' \<and>
   error_middleware (Error ''Unexpected token } in JSON at position 10'') =
     json 500 False ''Unexpected token } in JSON at position 10''"
  by (simp add: post_apply_def upload_single_def fileFilter_def png_request_def png_upload_def)

text \<open>
  C9 (amended). A failure caught inside a route that is not a validation failure (the
  store rejecting the save or the query) is answered with status 500 and the route's
  fixed generic message, whatever message the store's error carries. A validation
  failure is answered with status 400 and the messages of validation joined, in the
  contact route and in the application route alike. In the error handling middleware
  an upload error gets one of two fixed messages, and every other error is answered
  with its own message ("Something broke!" when that message is empty).
\<close>

theorem failure_messages:
  "(save ''Contact'' contactSchema e (new_contact e b) (contacts st) = Inl err \<longrightarrow>
      (error_name err \<noteq> ''ValidationError'' \<longrightarrow>
         post_contact e b st = (json 500 False ''Error submitting form. Please try again.'', st)) \<and>
      (error_name err = ''ValidationError'' \<longrightarrow>
         post_contact e b st =
           (json 400 False (join ''. '' (map snd (validate contactSchema (new_contact e b)))), st))) \<and>
   (upload_single ''resume'' e (part req) st = (Inr (Some f), st1) \<and>
    save ''Application'' applicationSchema e (new_application e req f) (applications st1) = Inl aerr \<longrightarrow>
      (error_name aerr \<noteq> ''ValidationError'' \<longrightarrow>
         post_apply e req st =
           (json 500 False ''Error submitting application. Please try again.'',
            unlink e (path f) st1)) \<and>
      (error_name aerr = ''ValidationError'' \<longrightarrow>
         post_apply e req st =
           (json 400 False
              (join ''. '' (map snd (validate applicationSchema (new_application e req f)))),
            unlink e (path f) st1))) \<and>
   (store_failure e = Some d \<longrightarrow>
      get_applications e st = (json 500 False ''Error fetching applications'', st)) \<and>
   (store_failure e = Some d \<and> validate contactSchema (new_contact e b) = [] \<longrightarrow>
      save ''Contact'' contactSchema e (new_contact e b) (contacts st) = Inl (Error d) \<and>
      post_contact e b st = (json 500 False ''Error submitting form. Please try again.'', st)) \<and>
   (store_failure e = Some d \<and> validate applicationSchema (new_application e req g) = [] \<longrightarrow>
      save ''Application'' applicationSchema e (new_application e req g) (applications st) =
        Inl (Error d) \<and>
      apply_handler e req (Some g) st =
        (json 500 False ''Error submitting application. Please try again.'',
         unlink e (path g) st)) \<and>
   (status (fst (post_contact e b st)) = 500 \<longrightarrow>
      fst (post_contact e b st) = json 500 False ''Error submitting form. Please try again.'') \<and>
   (status (fst (apply_handler e req rf st)) = 500 \<longrightarrow>
      fst (apply_handler e req rf st) =
        json 500 False ''Error submitting application. Please try again.'') \<and>
   (status (fst (get_applications e st)) = 500 \<longrightarrow>
      fst (get_applications e st) = json 500 False ''Error fetching applications'') \<and>
   post_contact (e\<lparr>store_failure := Some d\<rparr>) b st =
     post_contact (e\<lparr>store_failure := Some d'\<rparr>) b st \<and>
   apply_handler (e\<lparr>store_failure := Some d\<rparr>) req rf st =
     apply_handler (e\<lparr>store_failure := Some d'\<rparr>) req rf st \<and>
   get_applications (e\<lparr>store_failure := Some d\<rparr>) st =
     get_applications (e\<lparr>store_failure := Some d'\<rparr>) st \<and>
   (status (fst (post_contact e b st)) = 400 \<longrightarrow>
      fst (post_contact e b st) =
        json 400 False (join ''. '' (map snd (validate contactSchema (new_contact e b))))) \<and>
   (status (fst (apply_handler e req (Some g) st)) = 400 \<longrightarrow>
      fst (apply_handler e req (Some g) st) =
        json 400 False
          (join ''. '' (map snd (validate applicationSchema (new_application e req g))))) \<and>
   error_middleware (MulterError code m) =
     json 400 False (if code = ''LIMIT_FILE_SIZE'' then ''File is too large. Maximum size is 5MB''
                     else ''Error uploading file'') \<and>
   error_middleware (Error m) = json 500 False (if m = [] then ''Something broke!'' else m)"
proof -
  have c1: "save ''Contact'' contactSchema e (new_contact e b) (contacts st) = Inl err \<longrightarrow>
      (error_name err \<noteq> ''ValidationError'' \<longrightarrow>
         post_contact e b st = (json 500 False ''Error submitting form. Please try again.'', st)) \<and>
      (error_name err = ''ValidationError'' \<longrightarrow>
         post_contact e b st =
           (json 400 False (join ''. '' (map snd (validate contactSchema (new_contact e b)))), st))"
  proof
    assume s: "save ''Contact'' contactSchema e (new_contact e b) (contacts st) = Inl err"
    from save_failed_cases [OF s] post_contact_save_failed [OF s]
    show "(error_name err \<noteq> ''ValidationError'' \<longrightarrow>
         post_contact e b st = (json 500 False ''Error submitting form. Please try again.'', st)) \<and>
      (error_name err = ''ValidationError'' \<longrightarrow>
         post_contact e b st =
           (json 400 False (join ''. '' (map snd (validate contactSchema (new_contact e b)))), st))"
      by auto
  qed
  have a1: "upload_single ''resume'' e (part req) st = (Inr (Some f), st1) \<and>
    save ''Application'' applicationSchema e (new_application e req f) (applications st1) = Inl aerr \<longrightarrow>
      (error_name aerr \<noteq> ''ValidationError'' \<longrightarrow>
         post_apply e req st =
           (json 500 False ''Error submitting application. Please try again.'',
            unlink e (path f) st1)) \<and>
      (error_name aerr = ''ValidationError'' \<longrightarrow>
         post_apply e req st =
           (json 400 False
              (join ''. '' (map snd (validate applicationSchema (new_application e req f)))),
            unlink e (path f) st1))"
  proof
    assume h: "upload_single ''resume'' e (part req) st = (Inr (Some f), st1) \<and>
      save ''Application'' applicationSchema e (new_application e req f) (applications st1) = Inl aerr"
    then have up: "upload_single ''resume'' e (part req) st = (Inr (Some f), st1)"
      and s: "save ''Application'' applicationSchema e (new_application e req f) (applications st1) = Inl aerr"
      by simp_all
    have "post_apply e req st = apply_handler e req (Some f) st1"
      by (simp add: post_apply_cases up)
    with save_failed_cases [OF s] apply_handler_save_failed [OF s]
    show "(error_name aerr \<noteq> ''ValidationError'' \<longrightarrow>
         post_apply e req st =
           (json 500 False ''Error submitting application. Please try again.'',
            unlink e (path f) st1)) \<and>
      (error_name aerr = ''ValidationError'' \<longrightarrow>
         post_apply e req st =
           (json 400 False
              (join ''. '' (map snd (validate applicationSchema (new_application e req f)))),
            unlink e (path f) st1))"
      by auto
  qed
  have g1: "store_failure e = Some d \<longrightarrow>
      get_applications e st = (json 500 False ''Error fetching applications'', st)"
    by (simp add: get_applications_def)
  have c2: "store_failure e = Some d \<and> validate contactSchema (new_contact e b) = [] \<longrightarrow>
      save ''Contact'' contactSchema e (new_contact e b) (contacts st) = Inl (Error d) \<and>
      post_contact e b st = (json 500 False ''Error submitting form. Please try again.'', st)"
  proof
    assume h: "store_failure e = Some d \<and> validate contactSchema (new_contact e b) = []"
    then have s: "save ''Contact'' contactSchema e (new_contact e b) (contacts st) = Inl (Error d)"
      by (simp add: save_cases)
    from s post_contact_save_failed [OF s]
    show "save ''Contact'' contactSchema e (new_contact e b) (contacts st) = Inl (Error d) \<and>
      post_contact e b st = (json 500 False ''Error submitting form. Please try again.'', st)"
      by simp
  qed
  have a2: "store_failure e = Some d \<and> validate applicationSchema (new_application e req g) = [] \<longrightarrow>
      save ''Application'' applicationSchema e (new_application e req g) (applications st) =
        Inl (Error d) \<and>
      apply_handler e req (Some g) st =
        (json 500 False ''Error submitting application. Please try again.'',
         unlink e (path g) st)"
  proof
    assume h: "store_failure e = Some d \<and> validate applicationSchema (new_application e req g) = []"
    then have s: "save ''Application'' applicationSchema e (new_application e req g) (applications st) =
        Inl (Error d)"
      by (simp add: save_cases)
    from s apply_handler_save_failed [OF s]
    show "save ''Application'' applicationSchema e (new_application e req g) (applications st) =
        Inl (Error d) \<and>
      apply_handler e req (Some g) st =
        (json 500 False ''Error submitting application. Please try again.'',
         unlink e (path g) st)"
      by simp
  qed
  have c: "status (fst (post_contact e b st)) = 500 \<longrightarrow>
      fst (post_contact e b st) = json 500 False ''Error submitting form. Please try again.''"
    by (simp add: post_contact_cases json_def split: option.splits)
  have a: "status (fst (apply_handler e req rf st)) = 500 \<longrightarrow>
      fst (apply_handler e req rf st) =
        json 500 False ''Error submitting application. Please try again.''"
  proof (cases rf)
    case None
    then show ?thesis by (simp add: apply_handler_def json_def)
  next
    case (Some f)
    then show ?thesis
      by (simp add: apply_handler_cases json_def split: option.splits)
  qed
  have g: "status (fst (get_applications e st)) = 500 \<longrightarrow>
      fst (get_applications e st) = json 500 False ''Error fetching applications''"
    by (simp add: get_applications_def json_def split: option.splits)
  have cd: "post_contact (e\<lparr>store_failure := Some d\<rparr>) b st =
     post_contact (e\<lparr>store_failure := Some d'\<rparr>) b st"
    by (simp only: post_contact_store_detail)
  have ad: "apply_handler (e\<lparr>store_failure := Some d\<rparr>) req rf st =
     apply_handler (e\<lparr>store_failure := Some d'\<rparr>) req rf st"
  proof (cases rf)
    case None
    then show ?thesis by (simp add: apply_handler_def)
  next
    case (Some f)
    then show ?thesis by (simp only: apply_handler_store_detail)
  qed
  have gd: "get_applications (e\<lparr>store_failure := Some d\<rparr>) st =
     get_applications (e\<lparr>store_failure := Some d'\<rparr>) st"
    by (simp add: get_applications_def)
  have v: "status (fst (post_contact e b st)) = 400 \<longrightarrow>
      fst (post_contact e b st) =
        json 400 False (join ''. '' (map snd (validate contactSchema (new_contact e b))))"
    by (simp add: post_contact_cases validate_contactSchema contact_violations_def json_def
        new_contact_def split: option.splits)
  have va: "status (fst (apply_handler e req (Some g) st)) = 400 \<longrightarrow>
      fst (apply_handler e req (Some g) st) =
        json 400 False
          (join ''. '' (map snd (validate applicationSchema (new_application e req g))))"
    by (simp add: apply_handler_cases validate_applicationSchema application_violations_def
        json_def new_application_def required_violation_def missing_def split: option.splits)
  have m: "error_middleware (MulterError code m) =
     json 400 False (if code = ''LIMIT_FILE_SIZE'' then ''File is too large. Maximum size is 5MB''
                     else ''Error uploading file'')"
    by simp
  have m': "error_middleware (Error m) = json 500 False (if m = [] then ''Something broke!'' else m)"
    by simp
  from c1 a1 g1 c2 a2 c a g cd ad gd v va m m' show ?thesis
    by (intro conjI)
qed

theorem failure_messages_witness:
  "save ''Contact'' contactSchema failing_store_env (new_contact failing_store_env jane_body)
     (contacts empty_state) = Inl (Error ''connection refused 10.0.0.7:27017'') \<and>
   post_contact failing_store_env jane_body empty_state =
     (json 500 False ''Error submitting form. Please try again.'', empty_state) \<and>
   save ''Contact'' contactSchema working_env (new_contact working_env unnamed_body)
     (contacts empty_state) =
     Inl (ValidationError (validation_message ''Contact'' [(''name'', ''Name is required'')])
            [(''name'', ''Name is required'')]) \<and>
   post_contact working_env unnamed_body empty_state =
     (json 400 False ''Name is required'', empty_state) \<and>
   upload_single ''resume'' failing_store_env (part jane_request) empty_state =
     (Inr (Some jane_file), jane_stored) \<and>
   save ''Application'' applicationSchema failing_store_env
     (new_application failing_store_env jane_request jane_file) (applications jane_stored) =
     Inl (Error ''connection refused 10.0.0.7:27017'') \<and>
   post_apply failing_store_env jane_request empty_state =
     (json 500 False ''Error submitting application. Please try again.'', empty_state) \<and>
   upload_single ''resume'' working_env (part info_request) empty_state =
     (Inr (Some jane_file), jane_stored) \<and>
   save ''Application'' applicationSchema working_env
     (new_application working_env info_request jane_file) (applications jane_stored) =
     Inl (ValidationError
            (validation_message ''Application'' [(''email'', ''Please enter a valid email address'')])
            [(''email'', ''Please enter a valid email address'')]) \<and>
   post_apply working_env info_request empty_state =
     (json 400 False ''Please enter a valid email address'', empty_state) \<and>
   store_failure failing_store_env = Some ''connection refused 10.0.0.7:27017'' \<and>
   get_applications failing_store_env empty_state =
     (json 500 False ''Error fetching applications'', empty_state)"
proof -
  note t1 = failure_messages [where e = failing_store_env and b = jane_body and st = empty_state
      and err = "Error ''connection refused 10.0.0.7:27017''" and req = jane_request
      and f = jane_file and ?st1.0 = jane_stored
      and aerr = "Error ''connection refused 10.0.0.7:27017''"
      and d = "''connection refused 10.0.0.7:27017''"]
  note t2 = failure_messages [where e = working_env and b = unnamed_body and st = empty_state
      and err = "ValidationError (validation_message ''Contact'' [(''name'', ''Name is required'')])
          [(''name'', ''Name is required'')]"
      and req = info_request and f = jane_file and ?st1.0 = jane_stored
      and aerr = "ValidationError
          (validation_message ''Application'' [(''email'', ''Please enter a valid email address'')])
          [(''email'', ''Please enter a valid email address'')]"]
  note up1 = jane_upload_stored [OF example_envs(1,2)]
  note sv1 = jane_save_failed [OF example_envs(3,4), of "applications jane_stored"]
  have u1: "unlink failing_store_env (path jane_file) jane_stored = empty_state"
    by (rule unlink_jane_stored) (simp add: example_envs)
  have u2: "unlink working_env (path jane_file) jane_stored = empty_state"
    by (rule unlink_jane_stored) (simp add: working_env_def)
  from t1 [THEN conjunct1] jane_contact_save_failed
  have r1: "post_contact failing_store_env jane_body empty_state =
     (json 500 False ''Error submitting form. Please try again.'', empty_state)"
    by simp
  from t2 [THEN conjunct1] unnamed_contact_save_failed
  have r2: "post_contact working_env unnamed_body empty_state =
     (json 400 False ''Name is required'', empty_state)"
    by (simp add: unnamed_contact_invalid)
  from t1 [THEN conjunct2, THEN conjunct1] up1 sv1
  have r3: "post_apply failing_store_env jane_request empty_state =
     (json 500 False ''Error submitting application. Please try again.'', empty_state)"
    by (simp add: u1)
  from t2 [THEN conjunct2, THEN conjunct1] info_upload_stored info_application_save_failed
  have r4: "post_apply working_env info_request empty_state =
     (json 400 False ''Please enter a valid email address'', empty_state)"
    by (simp add: u2 info_application_invalid)
  from t1 [THEN conjunct2, THEN conjunct2, THEN conjunct1] example_envs(4)
  have r5: "get_applications failing_store_env empty_state =
     (json 500 False ''Error fetching applications'', empty_state)"
    by simp
  from jane_contact_save_failed r1 unnamed_contact_save_failed r2 up1 sv1 r3
    info_upload_stored info_application_save_failed r4 example_envs(4) r5
  show ?thesis by (intro conjI)
qed

section \<open>Listing the applications\<close>

text \<open>
  C6 (as stated). \<open>GET /api/applications\<close> does not always return the persisted
  records: when the query fails, the answer is status 500 with no data, although an
  application has been persisted.
\<close>

theorem list_applications_store_failure:
  "applications (serve [(working_env, PostApply jane_request)] empty_state) = [jane_application] \<and>
   fst (get_applications failing_store_env
         (serve [(working_env, PostApply jane_request)] empty_state)) =
     json 500 False ''Error fetching applications'' \<and>
   data (fst (get_applications failing_store_env
         (serve [(working_env, PostApply jane_request)] empty_state))) = None"
proof -
  have e: "upload_now working_env = 1730000000123" "math_random working_env = 123456789"
    "document_now working_env = 1730000000456" "store_failure working_env = None"
    by (simp_all add: working_env_def)
  have a: "applications (serve [(working_env, PostApply jane_request)] empty_state) = [jane_application]"
    by (simp add: jane_apply [OF e(1-3)] e(4) empty_state_def)
  have g: "get_applications failing_store_env st = (json 500 False ''Error fetching applications'', st)" for st
    by (simp add: get_applications_def failing_store_env_def)
  show ?thesis
    unfolding g using a by (simp add: json_def)
qed

text \<open>
  C6 (amended). After every sequence of requests, from every state: when the query
  succeeds, \<open>GET /api/applications\<close> answers with status 200 and all persisted
  Application records (the same records with the same multiplicities), sorted by
  \<open>createdAt\<close> in non-increasing order, and changes nothing; when the query fails,
  it answers with status 500 and the fixed message.
\<close>

theorem list_applications:
  "(store_failure e = None \<longrightarrow>
      (\<exists>xs. get_applications e (serve rs st0) =
              (\<lparr>status = 200, success = True, message = None, data = Some xs\<rparr>, serve rs st0) \<and>
            mset xs = mset (applications (serve rs st0)) \<and>
            sorted_wrt (\<lambda>a b. application.createdAt b \<le> application.createdAt a) xs)) \<and>
   (store_failure e \<noteq> None \<longrightarrow>
      get_applications e (serve rs st0) =
        (json 500 False ''Error fetching applications'', serve rs st0))"
proof (intro conjI impI)
  assume "store_failure e = None"
  then have "get_applications e (serve rs st0) =
      (\<lparr>status = 200, success = True, message = None,
        data = Some (find_sorted (applications (serve rs st0)))\<rparr>, serve rs st0)"
    by (simp add: get_applications_def)
  with find_sorted_mset find_sorted_sorted
  show "\<exists>xs. get_applications e (serve rs st0) =
              (\<lparr>status = 200, success = True, message = None, data = Some xs\<rparr>, serve rs st0) \<and>
            mset xs = mset (applications (serve rs st0)) \<and>
            sorted_wrt (\<lambda>a b. application.createdAt b \<le> application.createdAt a) xs"
    by blast
next
  assume "store_failure e \<noteq> None"
  then show "get_applications e (serve rs st0) =
        (json 500 False ''Error fetching applications'', serve rs st0)"
    by (auto simp: get_applications_def)
qed

theorem list_applications_witness:
  "store_failure working_env = None \<and>
   applications (serve [(working_env, PostApply jane_request)] old_state) =
     [old_application, jane_application] \<and>
   data (fst (get_applications working_env (serve [(working_env, PostApply jane_request)] old_state))) =
     Some [jane_application, old_application] \<and>
   store_failure failing_store_env \<noteq> None \<and>
   fst (get_applications failing_store_env (serve [(working_env, PostApply jane_request)] old_state)) =
     json 500 False ''Error fetching applications''"
proof -
  let ?st = "serve [(working_env, PostApply jane_request)] old_state"
  have e: "upload_now working_env = 1730000000123" "math_random working_env = 123456789"
    "document_now working_env = 1730000000456" "store_failure working_env = None"
    "store_failure failing_store_env \<noteq> None"
    by (simp_all add: working_env_def failing_store_env_def)
  have a: "applications ?st = [old_application, jane_application]"
    by (simp add: jane_apply [OF e(1-3)] e(4) old_state_def empty_state_def)
  from list_applications [where e = working_env and rs = "[(working_env, PostApply jane_request)]"
      and ?st0.0 = old_state] e(4)
  obtain xs where xs: "get_applications working_env ?st =
      (\<lparr>status = 200, success = True, message = None, data = Some xs\<rparr>, ?st)"
    "mset xs = mset (applications ?st)"
    "sorted_wrt (\<lambda>a b. application.createdAt b \<le> application.createdAt a) xs"
    by blast
  have lt: "application.createdAt old_application < application.createdAt jane_application"
    by (simp add: old_application_def jane_application_def)
  from xs(2) have "mset xs = mset [old_application, jane_application]"
    by (simp only: a)
  from two_sorted [OF this xs(3) lt] have "xs = [jane_application, old_application]" .
  with xs(1) have d: "data (fst (get_applications working_env ?st)) = Some [jane_application, old_application]"
    by simp
  from list_applications [where e = failing_store_env
      and rs = "[(working_env, PostApply jane_request)]" and ?st0.0 = old_state] e(5)
  have "fst (get_applications failing_store_env ?st) = json 500 False ''Error fetching applications''"
    by simp
  with e a d show ?thesis by blast
qed

section \<open>Cleaning up after a failed save\<close>

text \<open>
  C1 (as stated). After an accepted upload whose save fails, the written file may
  still exist when the handler has finished: the removal is attempted, and when it
  fails the failure is only logged.
\<close>

theorem application_cleanup_unlink_failure:
  "upload_single ''resume'' unlink_failing_env (part jane_request) empty_state =
     (Inr (Some jane_file), jane_stored) \<and>
   save ''Application'' applicationSchema unlink_failing_env
       (new_application unlink_failing_env jane_request jane_file) (applications jane_stored) =
     Inl (Error ''connection refused 10.0.0.7:27017'') \<and>
   post_apply unlink_failing_env jane_request empty_state =
     (json 500 False ''Error submitting application. Please try again.'', jane_stored) \<and>
   uploads (snd (post_apply unlink_failing_env jane_request empty_state))
     ''uploads/1730000000123-123456789.pdf'' = Some ''%PDF-1.4 Jane''"
proof -
  have p: "post_apply unlink_failing_env jane_request empty_state =
     (json 500 False ''Error submitting application. Please try again.'', jane_stored)"
    by (simp add: jane_apply [OF example_envs(6-8)] example_envs(9) unlink_failed example_envs(10)
        jane_stored_def empty_state_def)
  show ?thesis
    unfolding p
    by (simp add: jane_upload_stored [OF example_envs(6,7)]
        jane_save_failed [OF example_envs(8,9)])
       (simp add: jane_stored_def)
qed

text \<open>
  C1 (amended). For an application submission whose upload has been accepted and
  written: if the save of the Application record fails (validation or the store), the
  response is 400 or 500, no record is added, and the handler removes the written
  file: the file no longer exists when the removal succeeds, and when the removal
  fails the state is the one after the upload, the file still in it. And a request
  adds an Application record only if it is an application submission whose file has
  been accepted and written before the save: the record's \<open>resumeUrl\<close> names that
  file, which exists with the uploaded content after the request.
\<close>

theorem application_cleanup:
  "(upload_single ''resume'' e (part req) st = (Inr (Some f), st1) \<and>
    save ''Application'' applicationSchema e (new_application e req f) (applications st1) = Inl err \<longrightarrow>
      (status (fst (post_apply e req st)) = 400 \<or> status (fst (post_apply e req st)) = 500) \<and>
      applications (snd (post_apply e req st)) = applications st \<and>
      (unlink_failure e = None \<longrightarrow> uploads (snd (post_apply e req st)) (path f) = None) \<and>
      (unlink_failure e \<noteq> None \<longrightarrow>
         snd (post_apply e req st) = st1 \<and> uploads st1 (path f) \<noteq> None)) \<and>
   (applications (snd (handle e r st)) \<noteq> applications st \<longrightarrow>
      (\<exists>rq p g st2. r = PostApply rq \<and> part rq = Some p \<and>
         upload_single ''resume'' e (Some p) st = (Inr (Some g), st2) \<and>
         uploads st2 (path g) = Some (content p) \<and>
         uploads (snd (handle e r st)) (path g) = Some (content p) \<and>
         applications (snd (handle e r st)) = applications st @ [new_application e rq g] \<and>
         application.resumeUrl (new_application e rq g) =
           Some (protocol rq @ ''://'' @ host rq @ ''/uploads/'' @ filename g)))"
proof (intro conjI impI)
  assume h: "upload_single ''resume'' e (part req) st = (Inr (Some f), st1) \<and>
    save ''Application'' applicationSchema e (new_application e req f) (applications st1) = Inl err"
  then have up: "upload_single ''resume'' e (part req) st = (Inr (Some f), st1)"
    and sv: "save ''Application'' applicationSchema e (new_application e req f) (applications st1) = Inl err"
    by simp_all
  from upload_single_part [OF up] obtain u where u: "part req = Some u" by blast
  note acc = upload_single_accepted [OF up [unfolded u]]
  have r: "post_apply e req st =
     (if error_name err = ''ValidationError''
      then json 400 False (join ''. '' (map snd (error_errors err)))
      else json 500 False ''Error submitting application. Please try again.'',
      unlink e (path f) st1)"
    by (simp add: post_apply_cases up apply_handler_save_failed [OF sv])
  show "status (fst (post_apply e req st)) = 400 \<or> status (fst (post_apply e req st)) = 500"
    by (simp add: r json_def)
  show "applications (snd (post_apply e req st)) = applications st"
    by (simp add: r acc(5))
  show "uploads (snd (post_apply e req st)) (path f) = None" if "unlink_failure e = None"
    using that by (simp add: r unlink_removed)
  show "snd (post_apply e req st) = st1" if "unlink_failure e \<noteq> None"
    using that by (simp add: r unlink_failed)
  show "uploads st1 (path f) \<noteq> None"
    by (simp add: acc(4) acc(5))
next
  assume ch: "applications (snd (handle e r st)) \<noteq> applications st"
  show "\<exists>rq p g st2. r = PostApply rq \<and> part rq = Some p \<and>
         upload_single ''resume'' e (Some p) st = (Inr (Some g), st2) \<and>
         uploads st2 (path g) = Some (content p) \<and>
         uploads (snd (handle e r st)) (path g) = Some (content p) \<and>
         applications (snd (handle e r st)) = applications st @ [new_application e rq g] \<and>
         application.resumeUrl (new_application e rq g) =
           Some (protocol rq @ ''://'' @ host rq @ ''/uploads/'' @ filename g)"
  proof (cases r)
    case (PostContact b)
    with ch show ?thesis by (simp add: post_contact_applications)
  next
    case GetApplications
    with ch show ?thesis by (simp add: get_applications_def split: option.splits)
  next
    case (PostApply rq)
    with ch have ch': "applications (snd (post_apply e rq st)) \<noteq> applications st" by simp
    obtain res st2 where up: "upload_single ''resume'' e (part rq) st = (res, st2)"
      by (cases "upload_single ''resume'' e (part rq) st")
    with upload_single_applications [of "''resume''" e "part rq" st]
    have a2: "applications st2 = applications st" by simp
    from ch' up a2 obtain g where res: "res = Inr (Some g)"
      by (cases res; cases "projr res") (auto simp: post_apply_cases)
    from upload_single_part [OF up [unfolded res]] obtain p where p: "part rq = Some p" by blast
    note acc = upload_single_accepted [OF up [unfolded res p]]
    have pa: "post_apply e rq st = apply_handler e rq (Some g) st2"
      by (simp add: post_apply_cases up res)
    with ch' a2 have ok: "post_apply e rq st =
        (json 201 True ''Thank you for your application! We will review it shortly.'',
         st2\<lparr>applications := applications st2 @ [new_application e rq g]\<rparr>)"
      by (auto simp: apply_handler_cases split: if_splits option.splits)
    have u2: "uploads st2 (path g) = Some (content p)"
      by (simp add: acc(4) acc(5))
    from PostApply p up res u2 ok a2 show ?thesis
      by (simp add: new_application_def)
  qed
qed

theorem application_cleanup_witness:
  "upload_single ''resume'' failing_store_env (part jane_request) empty_state =
     (Inr (Some jane_file), jane_stored) \<and>
   save ''Application'' applicationSchema failing_store_env
       (new_application failing_store_env jane_request jane_file) (applications jane_stored) =
     Inl (Error ''connection refused 10.0.0.7:27017'') \<and>
   unlink_failure failing_store_env = None \<and>
   uploads (snd (post_apply failing_store_env jane_request empty_state)) (path jane_file) = None \<and>
   applications (snd (post_apply failing_store_env jane_request empty_state)) = [] \<and>
   unlink_failure unlink_failing_env \<noteq> None \<and>
   snd (post_apply unlink_failing_env jane_request empty_state) = jane_stored \<and>
   applications (snd (handle working_env (PostApply jane_request) empty_state)) \<noteq>
     applications empty_state \<and>
   uploads (snd (handle working_env (PostApply jane_request) empty_state))
     ''uploads/1730000000123-123456789.pdf'' = Some ''%PDF-1.4 Jane''"
proof -
  note up1 = jane_upload_stored [OF example_envs(1,2)]
  note sv1 = jane_save_failed [OF example_envs(3,4), of "applications jane_stored"]
  note up2 = jane_upload_stored [OF example_envs(6,7)]
  note sv2 = jane_save_failed [OF example_envs(8,9), of "applications jane_stored"]
  from application_cleanup [where e = failing_store_env and req = jane_request and st = empty_state
      and f = jane_file and ?st1.0 = jane_stored and err = "Error ''connection refused 10.0.0.7:27017''"]
    up1 sv1 example_envs(5)
  have a: "uploads (snd (post_apply failing_store_env jane_request empty_state)) (path jane_file) = None"
    and b: "applications (snd (post_apply failing_store_env jane_request empty_state)) = applications empty_state"
    by blast+
  from application_cleanup [where e = unlink_failing_env and req = jane_request and st = empty_state
      and f = jane_file and ?st1.0 = jane_stored and err = "Error ''connection refused 10.0.0.7:27017''"]
    up2 sv2 example_envs(10)
  have c: "snd (post_apply unlink_failing_env jane_request empty_state) = jane_stored"
    by auto
  have ch: "applications (snd (handle working_env (PostApply jane_request) empty_state)) \<noteq>
     applications empty_state"
    by (simp add: jane_apply [OF example_envs(11-13)] example_envs(14) empty_state_def)
  from application_cleanup [where e = working_env and r = "PostApply jane_request" and st = empty_state] ch
  obtain rq p g st2 where w: "PostApply jane_request = PostApply rq" "part rq = Some p"
    "upload_single ''resume'' working_env (Some p) empty_state = (Inr (Some g), st2)"
    "uploads (snd (handle working_env (PostApply jane_request) empty_state)) (path g) = Some (content p)"
    by blast
  from w(1) have "rq = jane_request" by simp
  with w(2) have "p = jane_pdf" by (simp add: jane_request_def)
  with w(3) jane_upload have "g = jane_file" by simp
  with w(4) \<open>p = jane_pdf\<close>
  have d: "uploads (snd (handle working_env (PostApply jane_request) empty_state))
     ''uploads/1730000000123-123456789.pdf'' = Some ''%PDF-1.4 Jane''"
    by (simp add: jane_file_def jane_pdf_def)
  from up1 sv1 example_envs(5,10) a b c ch d show ?thesis
    by (simp add: empty_state_def)
qed

end
